theory Spec2Isabelle
  imports Main "HOL-Library.Word"
begin

unbundle bit_operations_syntax

section \<open>Fiber: construction of a child fiber\<close>

text \<open>
  \<^verbatim>\<open>Fiber::Fiber(std::function<void()> cb, size_t stacksize, bool run_in_scheduler)\<close>.
  The parameter is a \<^verbatim>\<open>size_t\<close> (64 bits on Linux), the member \<^verbatim>\<open>m_stacksize\<close> is declared
  \<^verbatim>\<open>uint32_t\<close>, so the assignment narrows the selected value modulo \<open>2 ^ 32\<close>;
  \<^verbatim>\<open>malloc(m_stacksize)\<close> and \<^verbatim>\<open>uc_stack.ss_size\<close> then widen the member again.
\<close>

datatype State = READY | RUNNING | TERM

record Fiber =
  m_id :: "64 word"
  m_stacksize :: "32 word"
  m_state :: State
  m_stack_bytes :: "64 word"
  ss_size :: "64 word"
  m_fiber_cb :: "nat option"
  m_runInScheduler :: bool

definition Fiber_ctor :: "64 word \<Rightarrow> nat option \<Rightarrow> 64 word \<Rightarrow> bool \<Rightarrow> Fiber" where
  "Fiber_ctor s_fiber_id cb stacksize run_in_scheduler =
     (let sz = (ucast (if stacksize \<noteq> 0 then stacksize else 128000) :: 32 word)
      in \<lparr> m_id = s_fiber_id,
           m_stacksize = sz,
           m_state = READY,
           m_stack_bytes = ucast sz,
           ss_size = ucast sz,
           m_fiber_cb = cb,
           m_runInScheduler = run_in_scheduler \<rparr>)"

section \<open>Timer and TimerManager\<close>

text \<open>
  Instants of \<^verbatim>\<open>std::chrono::system_clock\<close> are counted in nanoseconds (the clock's tick on
  Linux); a reading of the clock is an input of each operation. A callable is known by
  what it does when invoked; \<open>None\<close> is the empty \<^verbatim>\<open>std::function\<close> (\<^verbatim>\<open>nullptr\<close>):
  \<open>UserFn\<close> is a callable of the application, \<open>OnTimerFn w f\<close> is
  \<^verbatim>\<open>std::bind(&OnTimer, weak_cond, cb)\<close>, \<open>IoTimeoutFn\<close> and \<open>ConnectTimeoutFn\<close> are the
  lambdas that \<^verbatim>\<open>do_io\<close> and \<^verbatim>\<open>connect_with_timeout\<close> hand to the timer (capturing the
  per-operation \<^verbatim>\<open>timer_info\<close>, the descriptor and the event), \<open>FiberResumeFn\<close> is the
  lambda of the sleep family that schedules the captured fiber. \<open>Event\<close> is the enum
  \<^verbatim>\<open>IOManager::Event\<close>.
\<close>

type_synonym time_point = int

text \<open>
  Time points and durations of the clock are \<^verbatim>\<open>int64_t\<close> counts of nanoseconds, and their
  sums, differences and unit conversions are computed in that type. \<open>int64\<close> gives the
  value the 64-bit two's-complement arithmetic of the machine leaves when the mathematical
  result is outside the type. Division of signed integers in C++ rounds towards zero.
\<close>

definition int64 :: "int \<Rightarrow> int" where
  "int64 x = sint (word_of_int x :: 64 word)"

definition div_trunc :: "int \<Rightarrow> int \<Rightarrow> int" where
  "div_trunc x y = (if (x < 0) = (y < 0) then \<bar>x\<bar> div \<bar>y\<bar> else - (\<bar>x\<bar> div \<bar>y\<bar>))"

datatype Event = NONE | READ | WRITE

datatype callable =
    UserFn nat
  | OnTimerFn nat callable
  | IoTimeoutFn nat int Event
  | ConnectTimeoutFn nat int
  | FiberResumeFn nat

record Timer =
  m_recurring :: bool
  m_ms :: "64 word"
  m_next :: time_point
  m_cb :: "callable option"

text \<open>
  A timer handle (\<^verbatim>\<open>std::shared_ptr<Timer>\<close>) is the identity of the object it points to.
  \<open>timer_objs\<close> holds the objects, \<open>m_timers\<close> the handles of the \<^verbatim>\<open>std::set\<close> in
  iteration order, \<open>front_inserted\<close> counts the calls of the virtual hook
  \<^verbatim>\<open>onTimerInsertedAtFront()\<close>.
\<close>

record TimerManager =
  timer_objs :: "nat \<Rightarrow> Timer"
  next_handle :: nat
  m_timers :: "nat list"
  m_tickled :: bool
  m_previouseTime :: time_point
  front_inserted :: nat

text \<open>\<^verbatim>\<open>TimerManager::TimerManager()\<close>: an empty set, the clock reading stored as the time
  of the previous check. No timer object exists yet; \<open>timer_objs\<close> is filled by \<open>addTimer\<close>.\<close>

definition TimerManager_ctor :: "time_point \<Rightarrow> TimerManager" where
  "TimerManager_ctor now =
     \<lparr> timer_objs = (\<lambda>_. \<lparr> m_recurring = False, m_ms = 0, m_next = 0, m_cb = None \<rparr>),
       next_handle = 0,
       m_timers = [],
       m_tickled = False,
       m_previouseTime = now,
       front_inserted = 0 \<rparr>"

text \<open>\<^verbatim>\<open>std::chrono::milliseconds(m_ms)\<close> as an operand of the clock's arithmetic: the
  \<^verbatim>\<open>uint64_t\<close> count is converted to the signed 64-bit representation and scaled to the
  clock's tick.\<close>

definition milliseconds :: "64 word \<Rightarrow> int" where
  "milliseconds ms = int64 (sint ms * 1000000)"

text \<open>\<^verbatim>\<open>Timer::Comparator::operator()\<close>: \<^verbatim>\<open>return lhs->m_next < rhs->m_next;\<close>\<close>

definition Comparator :: "(nat \<Rightarrow> Timer) \<Rightarrow> nat \<Rightarrow> nat \<Rightarrow> bool" where
  "Comparator objs lhs rhs = (m_next (objs lhs) < m_next (objs rhs))"

text \<open>
  The operations of \<^verbatim>\<open>std::set<Key, Compare>\<close> used by the code, on the sequence of keys in
  iteration order. \<open>set_insert\<close> gives the new sequence, the position of the returned
  iterator and whether the key went in: a key equivalent to a stored one (neither
  compares less than the other) is not inserted and the iterator points at the stored key.
  \<open>set_find\<close> gives the position of the stored key equivalent to the argument.
\<close>

fun set_insert :: "('a \<Rightarrow> 'a \<Rightarrow> bool) \<Rightarrow> 'a \<Rightarrow> 'a list \<Rightarrow> 'a list \<times> nat \<times> bool" where
  "set_insert lt x [] = ([x], 0, True)"
| "set_insert lt x (y # ys) =
     (if lt y x then
        (case set_insert lt x ys of (zs, i, b) \<Rightarrow> (y # zs, Suc i, b))
      else if lt x y then (x # y # ys, 0, True)
      else (y # ys, 0, False))"

fun set_find :: "('a \<Rightarrow> 'a \<Rightarrow> bool) \<Rightarrow> 'a \<Rightarrow> 'a list \<Rightarrow> nat option" where
  "set_find lt x [] = None"
| "set_find lt x (y # ys) =
     (if lt y x then map_option Suc (set_find lt x ys)
      else if lt x y then None
      else Some 0)"

definition set_erase :: "nat \<Rightarrow> 'a list \<Rightarrow> 'a list" where
  "set_erase i xs = take i xs @ drop (Suc i) xs"

definition upd_timer :: "nat \<Rightarrow> (Timer \<Rightarrow> Timer) \<Rightarrow> TimerManager \<Rightarrow> TimerManager" where
  "upd_timer h f tm = tm\<lparr>timer_objs := (timer_objs tm)(h := f (timer_objs tm h))\<rparr>"

text \<open>\<^verbatim>\<open>void TimerManager::addTimer(std::shared_ptr<Timer> timer)\<close>\<close>

definition addTimer_handle :: "nat \<Rightarrow> TimerManager \<Rightarrow> TimerManager" where
  "addTimer_handle timer tm =
     (case set_insert (Comparator (timer_objs tm)) timer (m_timers tm) of
        (ts, it, _) \<Rightarrow>
          (let at_front = (it = 0 \<and> \<not> m_tickled tm);
               tm1 = tm\<lparr>m_timers := ts\<rparr>;
               tm2 = (if at_front then tm1\<lparr>m_tickled := True\<rparr> else tm1)
           in if at_front then tm2\<lparr>front_inserted := Suc (front_inserted tm2)\<rparr> else tm2))"

text \<open>\<^verbatim>\<open>Timer::Timer(ms, cb, recurring, manager)\<close> followed by
  \<^verbatim>\<open>TimerManager::addTimer(ms, cb, recurring)\<close>; the result is the new handle.\<close>

definition Timer_ctor :: "time_point \<Rightarrow> 64 word \<Rightarrow> callable option \<Rightarrow> bool \<Rightarrow> Timer" where
  "Timer_ctor now ms cb recurring =
     \<lparr> m_recurring = recurring, m_ms = ms, m_next = int64 (now + milliseconds ms), m_cb = cb \<rparr>"

definition addTimer ::
  "time_point \<Rightarrow> 64 word \<Rightarrow> callable option \<Rightarrow> bool \<Rightarrow> TimerManager \<Rightarrow> nat \<times> TimerManager" where
  "addTimer now ms cb recurring tm =
     (let timer = next_handle tm;
          tm1 = tm\<lparr>timer_objs := (timer_objs tm)(timer := Timer_ctor now ms cb recurring),
                   next_handle := Suc timer\<rparr>
      in (timer, addTimer_handle timer tm1))"

text \<open>\<^verbatim>\<open>TimerManager::addConditionTimer\<close>: the callable is bound into \<^verbatim>\<open>OnTimer\<close> together
  with the weak reference.\<close>

definition addConditionTimer ::
  "time_point \<Rightarrow> 64 word \<Rightarrow> callable \<Rightarrow> nat \<Rightarrow> bool \<Rightarrow> TimerManager \<Rightarrow> nat \<times> TimerManager" where
  "addConditionTimer now ms cb weak_cond recurring tm =
     addTimer now ms (Some (OnTimerFn weak_cond cb)) recurring tm"

text \<open>\<^verbatim>\<open>bool Timer::cancel()\<close>\<close>

definition cancel :: "nat \<Rightarrow> TimerManager \<Rightarrow> bool \<times> TimerManager" where
  "cancel this tm =
     (if m_cb (timer_objs tm this) = None then (False, tm)
      else
        (let tm1 = upd_timer this (\<lambda>t. t\<lparr>m_cb := None\<rparr>) tm
         in case set_find (Comparator (timer_objs tm1)) this (m_timers tm1) of
              None \<Rightarrow> (True, tm1)
            | Some it \<Rightarrow> (True, tm1\<lparr>m_timers := set_erase it (m_timers tm1)\<rparr>)))"

text \<open>\<^verbatim>\<open>bool Timer::refresh()\<close>\<close>

definition refresh :: "time_point \<Rightarrow> nat \<Rightarrow> TimerManager \<Rightarrow> bool \<times> TimerManager" where
  "refresh now this tm =
     (if m_cb (timer_objs tm this) = None then (False, tm)
      else
        (case set_find (Comparator (timer_objs tm)) this (m_timers tm) of
           None \<Rightarrow> (False, tm)
         | Some it \<Rightarrow>
             (let tm1 = tm\<lparr>m_timers := set_erase it (m_timers tm)\<rparr>;
                  tm2 = upd_timer this
                          (\<lambda>t. t\<lparr>m_next := int64 (now + milliseconds (m_ms t))\<rparr>) tm1
              in case set_insert (Comparator (timer_objs tm2)) this (m_timers tm2) of
                   (ts, _, _) \<Rightarrow> (True, tm2\<lparr>m_timers := ts\<rparr>))))"

text \<open>\<^verbatim>\<open>bool Timer::reset(uint64_t ms, bool from_now)\<close>\<close>

definition reset :: "time_point \<Rightarrow> nat \<Rightarrow> 64 word \<Rightarrow> bool \<Rightarrow> TimerManager \<Rightarrow> bool \<times> TimerManager" where
  "reset now this ms from_now tm =
     (if ms = m_ms (timer_objs tm this) \<and> \<not> from_now then (True, tm)
      else if m_cb (timer_objs tm this) = None then (False, tm)
      else
        (case set_find (Comparator (timer_objs tm)) this (m_timers tm) of
           None \<Rightarrow> (False, tm)
         | Some it \<Rightarrow>
             (let tm1 = tm\<lparr>m_timers := set_erase it (m_timers tm)\<rparr>;
                  old = timer_objs tm1 this;
                  start = (if from_now then now
                           else int64 (m_next old - milliseconds (m_ms old)));
                  tm2 = upd_timer this
                          (\<lambda>t. t\<lparr>m_ms := ms, m_next := int64 (start + milliseconds ms)\<rparr>) tm1
              in (True, addTimer_handle this tm2))))"

text \<open>\<^verbatim>\<open>uint64_t TimerManager::getNextTimer()\<close>; \<^verbatim>\<open>~0ull\<close> is the word \<open>- 1\<close>.\<close>

definition getNextTimer :: "time_point \<Rightarrow> TimerManager \<Rightarrow> 64 word \<times> TimerManager" where
  "getNextTimer now tm =
     (let tm1 = tm\<lparr>m_tickled := False\<rparr>
      in case m_timers tm1 of
           [] \<Rightarrow> (- 1, tm1)
         | t # _ \<Rightarrow>
             (let time = m_next (timer_objs tm1 t)
              in if now \<ge> time then (0, tm1)
                 else (word_of_int (div_trunc (int64 (time - now)) 1000000), tm1)))"

text \<open>\<^verbatim>\<open>bool TimerManager::detectClockRollover()\<close>\<close>

definition detectClockRollover :: "time_point \<Rightarrow> TimerManager \<Rightarrow> bool \<times> TimerManager" where
  "detectClockRollover now tm =
     (now < int64 (m_previouseTime tm - milliseconds (60 * 60 * 1000)),
      tm\<lparr>m_previouseTime := now\<rparr>)"

text \<open>
  The \<^verbatim>\<open>while\<close> loop of \<^verbatim>\<open>TimerManager::listExpiredCb\<close>. The first argument bounds the number
  of iterations; \<open>None\<close> says that the loop is still running when the bound is used up.
\<close>

fun listExpiredCb_loop ::
  "nat \<Rightarrow> time_point \<Rightarrow> bool \<Rightarrow> TimerManager \<Rightarrow> callable option list \<Rightarrow>
   (TimerManager \<times> callable option list) option" where
  "listExpiredCb_loop fuel now rollover tm cbs =
     (case m_timers tm of
        [] \<Rightarrow> Some (tm, cbs)
      | temp # rest \<Rightarrow>
          if rollover \<or> m_next (timer_objs tm temp) \<le> now then
            (case fuel of
               0 \<Rightarrow> None
             | Suc k \<Rightarrow>
                 (let tm1 = tm\<lparr>m_timers := rest\<rparr>;
                      cbs1 = cbs @ [m_cb (timer_objs tm1 temp)]
                  in if m_recurring (timer_objs tm1 temp) then
                       (let tm2 = upd_timer temp
                                    (\<lambda>t. t\<lparr>m_next := int64 (now + milliseconds (m_ms t))\<rparr>) tm1
                        in case set_insert (Comparator (timer_objs tm2)) temp (m_timers tm2) of
                             (ts, _, _) \<Rightarrow>
                               listExpiredCb_loop k now rollover (tm2\<lparr>m_timers := ts\<rparr>) cbs1)
                     else
                       listExpiredCb_loop k now rollover
                         (upd_timer temp (\<lambda>t. t\<lparr>m_cb := None\<rparr>) tm1) cbs1))
          else Some (tm, cbs))"

text \<open>\<^verbatim>\<open>void TimerManager::listExpiredCb(std::vector<std::function<void()>>& cbs)\<close>: the clock
  is read once by the function (\<open>now\<close>) and once more inside
  \<^verbatim>\<open>detectClockRollover\<close> (\<open>now'\<close>).\<close>

declare listExpiredCb_loop.simps [simp del]

definition listExpiredCb ::
  "nat \<Rightarrow> time_point \<Rightarrow> time_point \<Rightarrow> TimerManager \<Rightarrow> callable option list \<Rightarrow>
   (TimerManager \<times> callable option list) option" where
  "listExpiredCb fuel now now' tm cbs =
     (case detectClockRollover now' tm of
        (rollover, tm1) \<Rightarrow> listExpiredCb_loop fuel now rollover tm1 cbs)"

definition hasTimer :: "TimerManager \<Rightarrow> bool" where
  "hasTimer tm = (m_timers tm \<noteq> [])"


section \<open>IOManager\<close>

text \<open>\<^verbatim>\<open>enum Event { NONE = 0x0, READ = 0x1, WRITE = 0x4 }\<close>; the member \<^verbatim>\<open>events\<close> of an
  \<^verbatim>\<open>FdContext\<close> holds unions of these values.\<close>

fun Event_val :: "Event \<Rightarrow> 32 word" where
  "Event_val NONE = 0x0"
| "Event_val READ = 0x1"
| "Event_val WRITE = 0x4"

text \<open>
  Ways in which an operation does not complete: an \<^verbatim>\<open>assert\<close> that fails (assertions are
  compiled in), the \<^verbatim>\<open>std::invalid_argument\<close> thrown by \<^verbatim>\<open>getEventContext\<close>, an index outside
  a vector, a read or a call through a pointer that is null or points to no object, a
  \<^verbatim>\<open>va_arg\<close> that reads an argument the caller did not pass with that type. The state
  reached at that point is not kept.
\<close>

datatype fault = AssertionFailed | InvalidArgument | OutOfRange | NullPointer | BadVarArg

text \<open>
  A pointer is \<open>None\<close> when null: \<open>scheduler\<close> is the \<^verbatim>\<open>Scheduler*\<close>, \<open>fiber\<close> the
  \<^verbatim>\<open>std::shared_ptr<Fiber>\<close> of a slot. The \<^verbatim>\<open>std::mutex\<close> members are left out: every
  operation below runs with the locks it takes in the source, one operation at a time.
\<close>

record EventContext =
  scheduler :: "nat option"
  fiber :: "nat option"
  cb :: "callable option"

text \<open>The member \<^verbatim>\<open>write\<close> is spelt \<open>write'\<close>, \<open>write\<close> being a keyword here.\<close>

record FdContext =
  read :: EventContext
  write' :: EventContext
  fd :: int
  events :: "32 word"

record ScheduleTask =
  task_fiber :: "nat option"
  task_cb :: "callable option"
  thread :: int

datatype epoll_op = EPOLL_CTL_ADD | EPOLL_CTL_DEL | EPOLL_CTL_MOD

text \<open>
  \<open>epoll_ctl_calls\<close> lists the calls of \<^verbatim>\<open>epoll_ctl(m_epfd, op, fd, &epevent)\<close> made so far
  with the operation, the descriptor, \<^verbatim>\<open>epevent.events\<close> and the value returned; the
  returned value is an input of the operation that makes the call. \<open>m_tasks\<close> lists the
  tasks pushed by \<^verbatim>\<open>scheduleLock\<close>, each with the scheduler it was pushed to. \<open>tmgr\<close> is the
  \<^verbatim>\<open>TimerManager\<close> base of the \<^verbatim>\<open>IOManager\<close>.
\<close>

record IOManager =
  m_fdContexts :: "FdContext list"
  m_pendingEventCount :: "64 word"
  epoll_ctl_calls :: "(epoll_op \<times> int \<times> 32 word \<times> int) list"
  m_tasks :: "(nat \<times> ScheduleTask) list"
  tmgr :: TimerManager

definition EPOLLET :: "32 word" where
  "EPOLLET = 0x80000000"

text \<open>The thread-local state read by \<^verbatim>\<open>Scheduler::GetThis()\<close> and \<^verbatim>\<open>Fiber::GetThis()\<close>:
  the scheduler of the calling thread (null on a thread that no scheduler has bound),
  the running fiber and its state.\<close>

record thread_env =
  t_scheduler :: "nat option"
  t_fiber :: nat
  t_fiber_state :: State

text \<open>\<^verbatim>\<open>IOManager::FdContext::getEventContext\<close> returns a reference; \<open>putEventContext\<close>
  is the assignment through that reference.\<close>

fun getEventContext :: "Event \<Rightarrow> FdContext \<Rightarrow> fault + EventContext" where
  "getEventContext READ c = Inr (read c)"
| "getEventContext WRITE c = Inr (write' c)"
| "getEventContext NONE c = Inl InvalidArgument"

fun putEventContext :: "Event \<Rightarrow> EventContext \<Rightarrow> FdContext \<Rightarrow> FdContext" where
  "putEventContext READ ec c = c\<lparr>read := ec\<rparr>"
| "putEventContext WRITE ec c = c\<lparr>write' := ec\<rparr>"
| "putEventContext NONE ec c = c"

definition resetEventContext :: "EventContext \<Rightarrow> EventContext" where
  "resetEventContext ctx = ctx\<lparr>scheduler := None, fiber := None, cb := None\<rparr>"

text \<open>\<^verbatim>\<open>Scheduler::scheduleLock(fc, thread)\<close>: the task is pushed when it holds a fiber or a
  callable. (Whether \<^verbatim>\<open>tickle()\<close> follows depends on the queue the workers are draining
  and is not part of this model.)\<close>

definition scheduleLock ::
  "nat \<Rightarrow> ScheduleTask \<Rightarrow> (nat \<times> ScheduleTask) list \<Rightarrow> (nat \<times> ScheduleTask) list" where
  "scheduleLock s task q =
     (if task_fiber task \<noteq> None \<or> task_cb task \<noteq> None then q @ [(s, task)] else q)"

text \<open>\<^verbatim>\<open>void IOManager::FdContext::triggerEvent(Event event)\<close>, with the task queues it
  pushes to. \<^verbatim>\<open>scheduleLock(&ctx.cb)\<close> and \<^verbatim>\<open>scheduleLock(&ctx.fiber)\<close> move the callable or
  the fiber out of the slot into the task.\<close>

definition triggerEvent ::
  "Event \<Rightarrow> FdContext \<times> (nat \<times> ScheduleTask) list \<Rightarrow>
   fault + FdContext \<times> (nat \<times> ScheduleTask) list" where
  "triggerEvent event cq =
     (case cq of (c, q) \<Rightarrow>
        if events c AND Event_val event = 0 then Inl AssertionFailed
        else
          (let c1 = c\<lparr>events := events c AND NOT (Event_val event)\<rparr>
           in case getEventContext event c1 of
                Inl e \<Rightarrow> Inl e
              | Inr ctx \<Rightarrow>
                  (case scheduler ctx of
                     None \<Rightarrow> Inl NullPointer
                   | Some s \<Rightarrow>
                       (let task =
                              (if cb ctx \<noteq> None
                               then \<lparr>task_fiber = None, task_cb = cb ctx, thread = - 1\<rparr>
                               else \<lparr>task_fiber = fiber ctx, task_cb = None, thread = - 1\<rparr>)
                        in Inr (putEventContext event (resetEventContext ctx) c1,
                                scheduleLock s task q)))))"

text \<open>\<^verbatim>\<open>new FdContext()\<close> with \<^verbatim>\<open>fd = i\<close>, and \<^verbatim>\<open>IOManager::contextResize(size)\<close>: after the
  resize every entry of the vector points to a context.\<close>

definition new_FdContext :: "int \<Rightarrow> FdContext" where
  "new_FdContext i =
     \<lparr> read = \<lparr>scheduler = None, fiber = None, cb = None\<rparr>,
       write' = \<lparr>scheduler = None, fiber = None, cb = None\<rparr>,
       fd = i,
       events = 0 \<rparr>"

definition contextResize :: "nat \<Rightarrow> IOManager \<Rightarrow> IOManager" where
  "contextResize n iom =
     iom\<lparr>m_fdContexts :=
           take n (m_fdContexts iom) @
           map (\<lambda>i. new_FdContext (int i)) [length (m_fdContexts iom) ..< n]\<rparr>"

definition put_fd_ctx :: "nat \<Rightarrow> FdContext \<Rightarrow> IOManager \<Rightarrow> IOManager" where
  "put_fd_ctx i c iom = iom\<lparr>m_fdContexts := (m_fdContexts iom)[i := c]\<rparr>"

definition epoll_ctl :: "epoll_op \<Rightarrow> int \<Rightarrow> 32 word \<Rightarrow> int \<Rightarrow> IOManager \<Rightarrow> IOManager" where
  "epoll_ctl op fdi evs rt iom =
     iom\<lparr>epoll_ctl_calls := epoll_ctl_calls iom @ [(op, fdi, evs, rt)]\<rparr>"

text \<open>
  \<^verbatim>\<open>int IOManager::addEvent(int fd, Event event, std::function<void()> cb)\<close>. \<open>rt\<close> is the value
  that \<^verbatim>\<open>epoll_ctl\<close> returns if it is called. \<^verbatim>\<open>fd * 1.5\<close> converted to \<^verbatim>\<open>size_t\<close> is
  \<open>3 * fd div 2\<close>. Indexing the vector outside its bounds is the fault \<open>OutOfRange\<close>.
\<close>

definition addEvent ::
  "thread_env \<Rightarrow> int \<Rightarrow> int \<Rightarrow> Event \<Rightarrow> callable option \<Rightarrow> IOManager \<Rightarrow>
   fault + int \<times> IOManager" where
  "addEvent env rt fdi event cbk iom =
     (let iom1 = (if int (length (m_fdContexts iom)) > fdi then iom
                  else contextResize (nat (3 * fdi div 2)) iom)
      in if fdi < 0 \<or> \<not> nat fdi < length (m_fdContexts iom1) then Inl OutOfRange
         else
           (let fd_ctx = m_fdContexts iom1 ! nat fdi
            in if events fd_ctx AND Event_val event \<noteq> 0 then Inr (- 1, iom1)
               else
                 (let op = (if events fd_ctx \<noteq> 0 then EPOLL_CTL_MOD else EPOLL_CTL_ADD);
                      iom2 = epoll_ctl op fdi (EPOLLET OR events fd_ctx OR Event_val event) rt iom1
                  in if rt \<noteq> 0 then Inr (- 1, iom2)
                     else
                       (let iom3 = iom2\<lparr>m_pendingEventCount := m_pendingEventCount iom2 + 1\<rparr>;
                            c1 = fd_ctx\<lparr>events := events fd_ctx OR Event_val event\<rparr>
                        in case getEventContext event c1 of
                             Inl e \<Rightarrow> Inl e
                           | Inr event_ctx \<Rightarrow>
                               if \<not> (scheduler event_ctx = None \<and> fiber event_ctx = None \<and>
                                      cb event_ctx = None)
                               then Inl AssertionFailed
                               else
                                 (let ec1 = event_ctx\<lparr>scheduler := t_scheduler env\<rparr>
                                  in case cbk of
                                       Some f \<Rightarrow>
                                         Inr (0, put_fd_ctx (nat fdi)
                                                   (putEventContext event (ec1\<lparr>cb := Some f\<rparr>) c1)
                                                   iom3)
                                     | None \<Rightarrow>
                                         if t_fiber_state env \<noteq> RUNNING then Inl AssertionFailed
                                         else
                                           Inr (0, put_fd_ctx (nat fdi)
                                                     (putEventContext event
                                                        (ec1\<lparr>fiber := Some (t_fiber env)\<rparr>) c1)
                                                     iom3))))))"

text \<open>
  \<^verbatim>\<open>bool IOManager::delEvent(int fd, Event event)\<close>. When \<^verbatim>\<open>epoll_ctl\<close> fails the source
  executes \<^verbatim>\<open>return -1;\<close> in a function returning \<^verbatim>\<open>bool\<close>: the value converts to
  \<^verbatim>\<open>true\<close>.
\<close>

definition delEvent :: "int \<Rightarrow> int \<Rightarrow> Event \<Rightarrow> IOManager \<Rightarrow> fault + bool \<times> IOManager" where
  "delEvent rt fdi event iom =
     (if \<not> int (length (m_fdContexts iom)) > fdi then Inr (False, iom)
      else if fdi < 0 then Inl OutOfRange
      else
        (let fd_ctx = m_fdContexts iom ! nat fdi
         in if events fd_ctx AND Event_val event = 0 then Inr (False, iom)
            else
              (let new_events = events fd_ctx AND NOT (Event_val event);
                   op = (if new_events \<noteq> 0 then EPOLL_CTL_MOD else EPOLL_CTL_DEL);
                   iom1 = epoll_ctl op fdi (EPOLLET OR new_events) rt iom
               in if rt \<noteq> 0 then Inr ((- 1 :: int) \<noteq> 0, iom1)
                  else
                    (let iom2 = iom1\<lparr>m_pendingEventCount := m_pendingEventCount iom1 - 1\<rparr>;
                         c1 = fd_ctx\<lparr>events := new_events\<rparr>
                     in case getEventContext event c1 of
                          Inl e \<Rightarrow> Inl e
                        | Inr event_ctx \<Rightarrow>
                            Inr (True, put_fd_ctx (nat fdi)
                                         (putEventContext event (resetEventContext event_ctx) c1)
                                         iom2)))))"

text \<open>\<^verbatim>\<open>bool IOManager::cancelEvent(int fd, Event event)\<close>\<close>

definition cancelEvent :: "int \<Rightarrow> int \<Rightarrow> Event \<Rightarrow> IOManager \<Rightarrow> fault + bool \<times> IOManager" where
  "cancelEvent rt fdi event iom =
     (if \<not> int (length (m_fdContexts iom)) > fdi then Inr (False, iom)
      else if fdi < 0 then Inl OutOfRange
      else
        (let fd_ctx = m_fdContexts iom ! nat fdi
         in if events fd_ctx AND Event_val event = 0 then Inr (False, iom)
            else
              (let new_events = events fd_ctx AND NOT (Event_val event);
                   op = (if new_events \<noteq> 0 then EPOLL_CTL_MOD else EPOLL_CTL_DEL);
                   iom1 = epoll_ctl op fdi (EPOLLET OR new_events) rt iom
               in if rt \<noteq> 0 then Inr ((- 1 :: int) \<noteq> 0, iom1)
                  else
                    (let iom2 = iom1\<lparr>m_pendingEventCount := m_pendingEventCount iom1 - 1\<rparr>
                     in case triggerEvent event (fd_ctx, m_tasks iom2) of
                          Inl e \<Rightarrow> Inl e
                        | Inr (c1, q) \<Rightarrow>
                            Inr (True, put_fd_ctx (nat fdi) c1 (iom2\<lparr>m_tasks := q\<rparr>))))))"

text \<open>\<^verbatim>\<open>bool IOManager::cancelAll(int fd)\<close>\<close>

definition cancelAll :: "int \<Rightarrow> int \<Rightarrow> IOManager \<Rightarrow> fault + bool \<times> IOManager" where
  "cancelAll rt fdi iom =
     (if \<not> int (length (m_fdContexts iom)) > fdi then Inr (False, iom)
      else if fdi < 0 then Inl OutOfRange
      else
        (let fd_ctx = m_fdContexts iom ! nat fdi
         in if events fd_ctx = 0 then Inr (False, iom)
            else
              (let iom1 = epoll_ctl EPOLL_CTL_DEL fdi 0 rt iom
               in if rt \<noteq> 0 then Inr ((- 1 :: int) \<noteq> 0, iom1)
                  else
                    (case (if events fd_ctx AND Event_val READ \<noteq> 0
                           then map_sum id (\<lambda>cq. (cq, m_pendingEventCount iom1 - 1))
                                  (triggerEvent READ (fd_ctx, m_tasks iom1))
                           else Inr ((fd_ctx, m_tasks iom1), m_pendingEventCount iom1)) of
                       Inl e \<Rightarrow> Inl e
                     | Inr ((c1, q1), n1) \<Rightarrow>
                         (case (if events c1 AND Event_val WRITE \<noteq> 0
                                then map_sum id (\<lambda>cq. (cq, n1 - 1)) (triggerEvent WRITE (c1, q1))
                                else Inr ((c1, q1), n1)) of
                            Inl e \<Rightarrow> Inl e
                          | Inr ((c2, q2), n2) \<Rightarrow>
                              if events c2 \<noteq> 0 then Inl AssertionFailed
                              else Inr (True, put_fd_ctx (nat fdi) c2
                                                (iom1\<lparr>m_tasks := q2, m_pendingEventCount := n2\<rparr>)))))))"

text \<open>
  \<^verbatim>\<open>IOManager::IOManager\<close>, as far as the members above go: the call
  \<^verbatim>\<open>epoll_ctl(m_epfd, EPOLL_CTL_ADD, m_tickleFds, &event)\<close> with \<^verbatim>\<open>EPOLLIN | EPOLLET\<close> is
  asserted to succeed, then \<^verbatim>\<open>contextResize(32)\<close>.
\<close>

definition IOManager_ctor :: "time_point \<Rightarrow> int \<Rightarrow> IOManager" where
  "IOManager_ctor now tickle_fd =
     contextResize 32
       \<lparr> m_fdContexts = [],
         m_pendingEventCount = 0,
         epoll_ctl_calls = [(EPOLL_CTL_ADD, tickle_fd, 0x1 OR EPOLLET, 0)],
         m_tasks = [],
         tmgr = TimerManager_ctor now \<rparr>"

text \<open>
  The property of claims C6 to C8: a slot is populated when it holds a scheduler together
  with a fiber or a callable; the \<^verbatim>\<open>events\<close> bitset matches the slots when each of the
  two bits is set exactly if its slot is populated.
\<close>

definition populated :: "EventContext \<Rightarrow> bool" where
  "populated ec = (scheduler ec \<noteq> None \<and> (fiber ec \<noteq> None \<or> cb ec \<noteq> None))"

definition events_match :: "FdContext \<Rightarrow> bool" where
  "events_match c =
     (((events c AND Event_val READ \<noteq> 0) = populated (read c)) \<and>
      ((events c AND Event_val WRITE \<noteq> 0) = populated (write' c)))"

definition ctxs_match :: "IOManager \<Rightarrow> bool" where
  "ctxs_match iom = (\<forall>c \<in> set (m_fdContexts iom). events_match c)"

text \<open>An event is armed on a descriptor when the descriptor has a context in the vector
  and the event's bit is set in its \<^verbatim>\<open>events\<close>.\<close>

definition armed :: "int \<Rightarrow> Event \<Rightarrow> IOManager \<Rightarrow> bool" where
  "armed fdi ev iom =
     (0 \<le> fdi \<and> nat fdi < length (m_fdContexts iom) \<and>
      events (m_fdContexts iom ! nat fdi) AND Event_val ev \<noteq> 0)"

text \<open>
  Example states: an \<^verbatim>\<open>IOManager\<close> with two unarmed contexts, a worker thread of
  scheduler 0 running fiber 1, a thread that no scheduler has bound, and the state after
  the worker has armed \<open>READ\<close> on descriptor 0 with a callable.
\<close>

definition small_iom :: IOManager where
  "small_iom = \<lparr> m_fdContexts = [new_FdContext 0, new_FdContext 1],
         m_pendingEventCount = 0,
         epoll_ctl_calls = [],
         m_tasks = [],
         tmgr = TimerManager_ctor 0 \<rparr>"

definition env0 :: thread_env where
  "env0 = \<lparr> t_scheduler = Some 0, t_fiber = 1, t_fiber_state = RUNNING \<rparr>"

definition foreign_env :: thread_env where
  "foreign_env = \<lparr> t_scheduler = None, t_fiber = 1, t_fiber_state = RUNNING \<rparr>"

definition armed_iom :: IOManager where
  "armed_iom = snd (projr (addEvent env0 0 0 READ (Some (UserFn 1)) small_iom))"

section \<open>FdCtx, FdManager and the interposed system calls\<close>

text \<open>
  Constants of the Linux system headers that the interposition layer uses
  (\<^verbatim>\<open><errno.h>\<close>, \<^verbatim>\<open><fcntl.h>\<close>, \<^verbatim>\<open><sys/ioctl.h>\<close>, \<^verbatim>\<open><sys/socket.h>\<close>).
\<close>

definition EINTR :: int where "EINTR = 4"
definition EBADF :: int where "EBADF = 9"
definition EAGAIN :: int where "EAGAIN = 11"
definition ETIMEDOUT :: int where "ETIMEDOUT = 110"
definition EINPROGRESS :: int where "EINPROGRESS = 115"
definition O_NONBLOCK :: int where "O_NONBLOCK = 2048"
definition F_DUPFD :: int where "F_DUPFD = 0"
definition F_GETFD :: int where "F_GETFD = 1"
definition F_SETFD :: int where "F_SETFD = 2"
definition F_GETFL :: int where "F_GETFL = 3"
definition F_SETFL :: int where "F_SETFL = 4"
definition F_GETLK :: int where "F_GETLK = 5"
definition F_SETLK :: int where "F_SETLK = 6"
definition F_SETLKW :: int where "F_SETLKW = 7"
definition F_SETOWN :: int where "F_SETOWN = 8"
definition F_GETOWN :: int where "F_GETOWN = 9"
definition F_SETSIG :: int where "F_SETSIG = 10"
definition F_GETSIG :: int where "F_GETSIG = 11"
definition F_SETOWN_EX :: int where "F_SETOWN_EX = 15"
definition F_GETOWN_EX :: int where "F_GETOWN_EX = 16"
definition F_SETLEASE :: int where "F_SETLEASE = 1024"
definition F_GETLEASE :: int where "F_GETLEASE = 1025"
definition F_NOTIFY :: int where "F_NOTIFY = 1026"
definition F_DUPFD_CLOEXEC :: int where "F_DUPFD_CLOEXEC = 1030"
definition F_SETPIPE_SZ :: int where "F_SETPIPE_SZ = 1031"
definition F_GETPIPE_SZ :: int where "F_GETPIPE_SZ = 1032"
definition FIONBIO :: "64 word" where "FIONBIO = 0x5421"
definition SOL_SOCKET :: int where "SOL_SOCKET = 1"
definition SO_ERROR :: int where "SO_ERROR = 4"
definition SO_RCVTIMEO :: int where "SO_RCVTIMEO = 20"
definition SO_SNDTIMEO :: int where "SO_SNDTIMEO = 21"

record FdCtx =
  m_isInit :: bool
  m_isSocket :: bool
  m_sysNonblock :: bool
  m_userNonblock :: bool
  m_isClosed :: bool
  m_fd :: int
  m_recvTimeout :: "64 word"
  m_sendTimeout :: "64 word"

text \<open>
  The original system calls (\<^verbatim>\<open>name_f\<close>, found with \<^verbatim>\<open>dlsym(RTLD_NEXT, ...)\<close>) belong to the
  operating system. A call is recorded with its arguments as far as the code looks at
  them; what it returns (the value, \<^verbatim>\<open>errno\<close> after the call, and the \<^verbatim>\<open>int\<close> written
  through an output pointer where there is one) is an input of the model.
\<close>

datatype io_fun =
    accept_f | read_f | readv_f | recv_f | recvfrom_f | recvmsg_f
  | write_f | writev_f | send_f | sendto_f | sendmsg_f

text \<open>
  The variable argument of \<^verbatim>\<open>fcntl\<close> as the caller passes it: none, an \<^verbatim>\<open>int\<close>, or a pointer
  (known by its address). \<^verbatim>\<open>va_arg\<close> gives the argument when it is read with the type it
  was passed with.
\<close>

datatype vararg = no_arg | int_arg int | ptr_arg nat

fun va_arg_int :: "vararg \<Rightarrow> fault + int" where
  "va_arg_int (int_arg x) = Inr x"
| "va_arg_int va = Inl BadVarArg"

fun va_arg_ptr :: "vararg \<Rightarrow> fault + nat" where
  "va_arg_ptr (ptr_arg p) = Inr p"
| "va_arg_ptr va = Inl BadVarArg"

datatype syscall =
    io_call io_fun int
  | sleep_call "32 word"
  | usleep_call "32 word"
  | nanosleep_call int int
  | connect_call int
  | fcntl_call int int vararg
  | ioctl_call int "64 word" nat
  | getsockopt_call int int int
  | setsockopt_call int int int int int
  | fstat_call int

record sysret =
  sr_ret :: int
  sr_errno :: int
  sr_out :: int

text \<open>
  The state the interposed calls work on: the thread-local hook flag, the thread-local
  scheduler and fiber, \<^verbatim>\<open>errno\<close>, the vector of the \<^verbatim>\<open>FdManager\<close> singleton, the
  \<^verbatim>\<open>IOManager\<close> (the one of this model is scheduler 0; a thread bound to another scheduler
  gets null from \<^verbatim>\<open>IOManager::GetThis()\<close>), the live \<^verbatim>\<open>timer_info\<close> objects with their
  \<^verbatim>\<open>cancelled\<close> member (\<open>None\<close> for an object that does not exist or was released), and the
  original system calls made so far.
\<close>

record hook_world =
  t_hook_enable :: bool
  thr :: thread_env
  errno :: int
  m_datas :: "FdCtx option list"
  io_manager :: IOManager
  timer_infos :: "nat \<Rightarrow> int option"
  next_timer_info :: nat
  sys_calls :: "syscall list"

text \<open>
  What the environment supplies for one round of an interposed call: the answer of the
  original system call, the clock reading for a timer that may be created, the answer of
  \<^verbatim>\<open>epoll_ctl\<close> for an event that may be added, and what the rest of the program does to
  the state between \<^verbatim>\<open>yield()\<close> and the resumption of the fiber (a fault there aborts the
  process).
\<close>

record attempt =
  a_ret :: sysret
  a_now :: time_point
  a_epoll :: int
  a_susp :: "hook_world \<Rightarrow> fault + hook_world"

definition raw :: "syscall \<Rightarrow> sysret \<Rightarrow> hook_world \<Rightarrow> hook_world" where
  "raw call r w = w\<lparr>errno := sr_errno r, sys_calls := sys_calls w @ [call]\<rparr>"

definition IOManager_GetThis :: "hook_world \<Rightarrow> IOManager option" where
  "IOManager_GetThis w = (if t_scheduler (thr w) = Some 0 then Some (io_manager w) else None)"

text \<open>\<^verbatim>\<open>FdCtx::FdCtx(int fd)\<close> with \<^verbatim>\<open>FdCtx::init()\<close>: \<open>st\<close> answers \<^verbatim>\<open>fstat\<close> (its output is
  non-zero for a socket), \<open>gf\<close> and \<open>sf\<close> answer the two \<^verbatim>\<open>fcntl_f\<close> calls.\<close>

definition FdCtx_ctor :: "int \<Rightarrow> sysret \<Rightarrow> sysret \<Rightarrow> sysret \<Rightarrow> hook_world \<Rightarrow> FdCtx \<times> hook_world" where
  "FdCtx_ctor fdi st gf sf w =
     (let w1 = raw (fstat_call fdi) st w;
          isInit = (sr_ret st \<noteq> - 1);
          isSocket = (isInit \<and> sr_out st \<noteq> 0);
          w2 = (if isSocket then
                  (let w' = raw (fcntl_call fdi F_GETFL (int_arg 0)) gf w1
                   in if sr_ret gf AND O_NONBLOCK = 0
                      then raw (fcntl_call fdi F_SETFL (int_arg (sr_ret gf OR O_NONBLOCK))) sf w'
                      else w')
                else w1)
      in (\<lparr> m_isInit = isInit, m_isSocket = isSocket, m_sysNonblock = isSocket,
            m_userNonblock = False, m_isClosed = False, m_fd = fdi,
            m_recvTimeout = - 1, m_sendTimeout = - 1 \<rparr>, w2))"

definition setTimeout :: "int \<Rightarrow> 64 word \<Rightarrow> FdCtx \<Rightarrow> FdCtx" where
  "setTimeout type v c =
     (if type = SO_RCVTIMEO then c\<lparr>m_recvTimeout := v\<rparr> else c\<lparr>m_sendTimeout := v\<rparr>)"

definition getTimeout :: "int \<Rightarrow> FdCtx \<Rightarrow> 64 word" where
  "getTimeout type c = (if type = SO_RCVTIMEO then m_recvTimeout c else m_sendTimeout c)"

text \<open>
  \<^verbatim>\<open>FdManager::get(fd, auto_create)\<close>. In \<^verbatim>\<open>m_datas.size() <= fd\<close> the descriptor is converted
  to \<^verbatim>\<open>size_t\<close>, so a negative one counts as beyond the vector. \<open>FdMgr_get\<close> is the call
  with \<^verbatim>\<open>auto_create = false\<close>, \<open>FdMgr_get_create\<close> the call with \<^verbatim>\<open>auto_create = true\<close>
  (made with \<open>0 \<le> fd\<close> only: after \<^verbatim>\<open>socket_f\<close> and \<^verbatim>\<open>accept\<close> succeeded).
\<close>

definition FdMgr_get :: "int \<Rightarrow> hook_world \<Rightarrow> FdCtx option" where
  "FdMgr_get fdi w =
     (if fdi = - 1 then None
      else if fdi < 0 \<or> length (m_datas w) \<le> nat fdi then None
      else m_datas w ! nat fdi)"

definition FdMgr_get_create ::
  "int \<Rightarrow> sysret \<Rightarrow> sysret \<Rightarrow> sysret \<Rightarrow> hook_world \<Rightarrow> fault + hook_world" where
  "FdMgr_get_create fdi st gf sf w =
     (if fdi < 0 then Inl OutOfRange
      else if nat fdi < length (m_datas w) \<and> m_datas w ! nat fdi \<noteq> None then Inr w
      else
        (let w1 = (if length (m_datas w) \<le> nat fdi
                   then w\<lparr>m_datas := m_datas w @
                            replicate (nat (3 * fdi div 2) - length (m_datas w)) None\<rparr>
                   else w)
         in if \<not> nat fdi < length (m_datas w1) then Inl OutOfRange
            else (case FdCtx_ctor fdi st gf sf w1 of
                    (c, w2) \<Rightarrow> Inr (w2\<lparr>m_datas := (m_datas w2)[nat fdi := Some c]\<rparr>))))"

definition put_FdCtx :: "int \<Rightarrow> FdCtx \<Rightarrow> hook_world \<Rightarrow> hook_world" where
  "put_FdCtx fdi c w = w\<lparr>m_datas := (m_datas w)[nat fdi := Some c]\<rparr>"

text \<open>\<^verbatim>\<open>std::shared_ptr<timer_info> tinfo(new timer_info)\<close> and the end of its lifetime when
  the interposed call returns.\<close>

definition new_timer_info :: "hook_world \<Rightarrow> nat \<times> hook_world" where
  "new_timer_info w =
     (next_timer_info w,
      w\<lparr>timer_infos := (timer_infos w)(next_timer_info w := Some 0),
        next_timer_info := Suc (next_timer_info w)\<rparr>)"

definition release_timer_info :: "nat \<Rightarrow> hook_world \<Rightarrow> hook_world" where
  "release_timer_info ti w = w\<lparr>timer_infos := (timer_infos w)(ti := None)\<rparr>"

text \<open>\<^verbatim>\<open>if(timer) timer->cancel();\<close>\<close>

fun cancel_timer :: "nat option \<Rightarrow> hook_world \<Rightarrow> hook_world" where
  "cancel_timer None w = w"
| "cancel_timer (Some t) w =
     w\<lparr>io_manager := (io_manager w)\<lparr>tmgr := snd (cancel t (tmgr (io_manager w)))\<rparr>\<rparr>"

text \<open>
  Invoking a callable of the runtime. \<open>OnTimerFn\<close> is \<^verbatim>\<open>OnTimer(weak_cond, cb)\<close>: the callable
  runs if the weak reference can be locked. \<open>IoTimeoutFn\<close> and \<open>ConnectTimeoutFn\<close> are the
  timer lambdas of \<^verbatim>\<open>do_io\<close> and \<^verbatim>\<open>connect_with_timeout\<close>; \<open>rt\<close> answers the \<^verbatim>\<open>epoll_ctl\<close> call
  of their \<^verbatim>\<open>cancelEvent\<close>. \<open>FiberResumeFn\<close> is \<^verbatim>\<open>iom->scheduleLock(fiber, -1)\<close>. What a callable
  of the application does is outside the model.
\<close>

fun run_callable :: "callable \<Rightarrow> int \<Rightarrow> hook_world \<Rightarrow> fault + hook_world" where
  "run_callable (UserFn n) rt w = Inr w"
| "run_callable (OnTimerFn weak_cond f) rt w =
     (if timer_infos w weak_cond \<noteq> None then run_callable f rt w else Inr w)"
| "run_callable (IoTimeoutFn ti fdi event) rt w =
     (case timer_infos w ti of
        None \<Rightarrow> Inr w
      | Some cancelled \<Rightarrow>
          if cancelled \<noteq> 0 then Inr w
          else
            (let w1 = w\<lparr>timer_infos := (timer_infos w)(ti := Some ETIMEDOUT)\<rparr>
             in case cancelEvent rt fdi event (io_manager w1) of
                  Inl e \<Rightarrow> Inl e
                | Inr (_, iom') \<Rightarrow> Inr (w1\<lparr>io_manager := iom'\<rparr>)))"
| "run_callable (ConnectTimeoutFn ti fdi) rt w =
     (case timer_infos w ti of
        None \<Rightarrow> Inr w
      | Some cancelled \<Rightarrow>
          if cancelled \<noteq> 0 then Inr w
          else
            (let w1 = w\<lparr>timer_infos := (timer_infos w)(ti := Some ETIMEDOUT)\<rparr>
             in case cancelEvent rt fdi WRITE (io_manager w1) of
                  Inl e \<Rightarrow> Inl e
                | Inr (_, iom') \<Rightarrow> Inr (w1\<lparr>io_manager := iom'\<rparr>)))"
| "run_callable (FiberResumeFn f) rt w =
     Inr (w\<lparr>io_manager := (io_manager w)
             \<lparr>m_tasks := scheduleLock 0 \<lparr>task_fiber = Some f, task_cb = None, thread = - 1\<rparr>
                            (m_tasks (io_manager w))\<rparr>\<rparr>)"

text \<open>
  \<^verbatim>\<open>do_io\<close> from the label \<^verbatim>\<open>retry:\<close> on. Every round starts with a call of the original
  function and uses up one \<open>attempt\<close>; a call interrupted by a signal (\<^verbatim>\<open>EINTR\<close>) is followed
  by the next call. \<open>None\<close> says that the environment's answers are used up before the
  function returns. \<open>timeout\<close> is the per-direction timeout read from the \<^verbatim>\<open>FdCtx\<close>, \<open>ti\<close> the
  \<^verbatim>\<open>timer_info\<close> of this operation.
\<close>

fun do_io_retry ::
  "attempt list \<Rightarrow> int \<Rightarrow> io_fun \<Rightarrow> Event \<Rightarrow> 64 word \<Rightarrow> nat \<Rightarrow> hook_world \<Rightarrow>
   (fault + int \<times> hook_world) option" where
  "do_io_retry [] fdi fn event timeout ti w = None"
| "do_io_retry (a # as) fdi fn event timeout ti w =
     (let n = sr_ret (a_ret a);
          w1 = raw (io_call fn fdi) (a_ret a) w
      in if n = - 1 \<and> errno w1 = EINTR then do_io_retry as fdi fn event timeout ti w1
         else if n = - 1 \<and> errno w1 = EAGAIN then
           (case IOManager_GetThis w1 of
              None \<Rightarrow> Some (Inl NullPointer)
            | Some iom0 \<Rightarrow>
                (let (timer, tm1) =
                       (if timeout \<noteq> - 1
                        then map_prod Some id
                               (addConditionTimer (a_now a) timeout (IoTimeoutFn ti fdi event) ti
                                  False (tmgr iom0))
                        else (None, tmgr iom0))
                 in case addEvent (thr w1) (a_epoll a) fdi event None (iom0\<lparr>tmgr := tm1\<rparr>) of
                      Inl e \<Rightarrow> Some (Inl e)
                    | Inr (rt, iom2) \<Rightarrow>
                        if rt \<noteq> 0 then
                          Some (Inr (- 1, release_timer_info ti
                                            (cancel_timer timer (w1\<lparr>io_manager := iom2\<rparr>))))
                        else
                          (case a_susp a (w1\<lparr>io_manager := iom2\<rparr>) of
                             Inl e \<Rightarrow> Some (Inl e)
                           | Inr w2 \<Rightarrow>
                               (let w3 = cancel_timer timer w2
                                in case timer_infos w3 ti of
                                     None \<Rightarrow> Some (Inl NullPointer)
                                   | Some cancelled \<Rightarrow>
                                       if cancelled = ETIMEDOUT then
                                         Some (Inr (- 1, release_timer_info ti
                                                           (w3\<lparr>errno := cancelled\<rparr>)))
                                       else do_io_retry as fdi fn event timeout ti w3))))
         else Some (Inr (n, release_timer_info ti w1)))"

text \<open>\<^verbatim>\<open>do_io(fd, fun, hook_fun_name, event, timeout_so, args...)\<close>\<close>

definition do_io ::
  "attempt list \<Rightarrow> int \<Rightarrow> io_fun \<Rightarrow> Event \<Rightarrow> int \<Rightarrow> hook_world \<Rightarrow>
   (fault + int \<times> hook_world) option" where
  "do_io as fdi fn event timeout_so w =
     (let pass = (case as of
                    [] \<Rightarrow> None
                  | a # _ \<Rightarrow> Some (Inr (sr_ret (a_ret a), raw (io_call fn fdi) (a_ret a) w)))
      in if \<not> t_hook_enable w then pass
         else
           (case FdMgr_get fdi w of
              None \<Rightarrow> pass
            | Some ctx \<Rightarrow>
                if m_isClosed ctx then Some (Inr (- 1, w\<lparr>errno := EBADF\<rparr>))
                else if \<not> m_isSocket ctx \<or> m_userNonblock ctx then pass
                else
                  (case new_timer_info w of
                     (ti, w0) \<Rightarrow> do_io_retry as fdi fn event (getTimeout timeout_so ctx) ti w0)))"

text \<open>The wrappers: \<^verbatim>\<open>read\<close>, \<^verbatim>\<open>readv\<close>, \<^verbatim>\<open>recv\<close>, \<^verbatim>\<open>recvfrom\<close>, \<^verbatim>\<open>recvmsg\<close> call \<^verbatim>\<open>do_io\<close> with
  \<^verbatim>\<open>READ\<close> and \<^verbatim>\<open>SO_RCVTIMEO\<close>; \<^verbatim>\<open>write\<close>, \<^verbatim>\<open>writev\<close>, \<^verbatim>\<open>send\<close>, \<^verbatim>\<open>sendto\<close>, \<^verbatim>\<open>sendmsg\<close> with \<^verbatim>\<open>WRITE\<close>
  and \<^verbatim>\<open>SO_SNDTIMEO\<close>; each returns what \<^verbatim>\<open>do_io\<close> returns.\<close>

fun io_event :: "io_fun \<Rightarrow> Event" where
  "io_event write_f = WRITE"
| "io_event writev_f = WRITE"
| "io_event send_f = WRITE"
| "io_event sendto_f = WRITE"
| "io_event sendmsg_f = WRITE"
| "io_event fn = READ"

definition hooked_io ::
  "attempt list \<Rightarrow> io_fun \<Rightarrow> int \<Rightarrow> hook_world \<Rightarrow> (fault + int \<times> hook_world) option" where
  "hooked_io as fn fdi w =
     do_io as fdi fn (io_event fn) (if io_event fn = READ then SO_RCVTIMEO else SO_SNDTIMEO) w"

text \<open>\<^verbatim>\<open>accept\<close>: \<^verbatim>\<open>do_io\<close> on the listener, then \<^verbatim>\<open>FdMgr::GetInstance()->get(fd, true)\<close> for
  the accepted descriptor.\<close>

definition accept ::
  "attempt list \<Rightarrow> sysret \<Rightarrow> sysret \<Rightarrow> sysret \<Rightarrow> int \<Rightarrow> hook_world \<Rightarrow>
   (fault + int \<times> hook_world) option" where
  "accept as st gf sf sockfd w =
     (case do_io as sockfd accept_f READ SO_RCVTIMEO w of
        None \<Rightarrow> None
      | Some (Inl e) \<Rightarrow> Some (Inl e)
      | Some (Inr (n, w1)) \<Rightarrow>
          if n \<ge> 0 then
            (case FdMgr_get_create n st gf sf w1 of
               Inl e \<Rightarrow> Some (Inl e)
             | Inr w2 \<Rightarrow> Some (Inr (n, w2)))
          else Some (Inr (n, w1)))"

text \<open>
  The sleep family. With the hook enabled a timer is added whose callable schedules the
  current fiber, the fiber yields, and 0 is returned on resumption. \<^verbatim>\<open>seconds*1000\<close> is
  computed in \<^verbatim>\<open>unsigned int\<close> and \<^verbatim>\<open>usec/1000\<close> in \<^verbatim>\<open>useconds_t\<close> before the conversion to
  \<^verbatim>\<open>uint64_t\<close>; \<^verbatim>\<open>nanosleep\<close> stores its sum in an \<^verbatim>\<open>int\<close>, which is sign-extended.
\<close>

definition sleep_on_timer :: "attempt \<Rightarrow> 64 word \<Rightarrow> hook_world \<Rightarrow> fault + int \<times> hook_world" where
  "sleep_on_timer a ms w =
     (case IOManager_GetThis w of
        None \<Rightarrow> Inl NullPointer
      | Some iom0 \<Rightarrow>
          (case addTimer (a_now a) ms (Some (FiberResumeFn (t_fiber (thr w)))) False (tmgr iom0) of
             (_, tm1) \<Rightarrow>
               (case a_susp a (w\<lparr>io_manager := iom0\<lparr>tmgr := tm1\<rparr>\<rparr>) of
                  Inl e \<Rightarrow> Inl e
                | Inr w1 \<Rightarrow> Inr (0, w1))))"

definition sleep :: "attempt \<Rightarrow> 32 word \<Rightarrow> hook_world \<Rightarrow> fault + int \<times> hook_world" where
  "sleep a seconds w =
     (if \<not> t_hook_enable w
      then Inr (sr_ret (a_ret a), raw (sleep_call seconds) (a_ret a) w)
      else sleep_on_timer a (ucast (seconds * 1000)) w)"

definition usleep :: "attempt \<Rightarrow> 32 word \<Rightarrow> hook_world \<Rightarrow> fault + int \<times> hook_world" where
  "usleep a usec w =
     (if \<not> t_hook_enable w
      then Inr (sr_ret (a_ret a), raw (usleep_call usec) (a_ret a) w)
      else sleep_on_timer a (ucast (usec div 1000)) w)"

definition nanosleep :: "attempt \<Rightarrow> int \<Rightarrow> int \<Rightarrow> hook_world \<Rightarrow> fault + int \<times> hook_world" where
  "nanosleep a tv_sec tv_nsec w =
     (if \<not> t_hook_enable w
      then Inr (sr_ret (a_ret a), raw (nanosleep_call tv_sec tv_nsec) (a_ret a) w)
      else
        (let timeout_ms = (word_of_int (tv_sec * 1000 + div_trunc (div_trunc tv_nsec 1000) 1000)
                             :: 32 word)
         in sleep_on_timer a (scast timeout_ms) w))"

text \<open>\<^verbatim>\<open>getsockopt\<close> calls the original function whatever the hook flag says.\<close>

definition getsockopt ::
  "sysret \<Rightarrow> int \<Rightarrow> int \<Rightarrow> int \<Rightarrow> hook_world \<Rightarrow> (int \<times> int) \<times> hook_world" where
  "getsockopt r sockfd level optname w =
     ((sr_ret r, sr_out r), raw (getsockopt_call sockfd level optname) r w)"

text \<open>
  \<^verbatim>\<open>connect_with_timeout(fd, addr, addrlen, timeout_ms)\<close>: \<open>a\<close> answers \<^verbatim>\<open>connect_f\<close> and the
  steps up to the resumption, \<open>r2\<close> answers the \<^verbatim>\<open>getsockopt\<close> for \<^verbatim>\<open>SO_ERROR\<close>. \<^verbatim>\<open>connect\<close>
  passes \<^verbatim>\<open>s_connect_timeout\<close>, which is initialised to \<^verbatim>\<open>-1\<close> and never assigned.
\<close>

definition connect_so_error :: "sysret \<Rightarrow> int \<Rightarrow> nat \<Rightarrow> hook_world \<Rightarrow> int \<times> hook_world" where
  "connect_so_error r2 fdi ti w =
     (case getsockopt r2 fdi SOL_SOCKET SO_ERROR w of
        ((g, error), w1) \<Rightarrow>
          if g = - 1 then (- 1, release_timer_info ti w1)
          else if error = 0 then (0, release_timer_info ti w1)
          else (- 1, release_timer_info ti (w1\<lparr>errno := error\<rparr>)))"

definition connect_with_timeout ::
  "attempt \<Rightarrow> sysret \<Rightarrow> int \<Rightarrow> 64 word \<Rightarrow> hook_world \<Rightarrow> fault + int \<times> hook_world" where
  "connect_with_timeout a r2 fdi timeout_ms w =
     (let w1 = raw (connect_call fdi) (a_ret a) w; n = sr_ret (a_ret a)
      in if \<not> t_hook_enable w then Inr (n, w1)
         else
           (case FdMgr_get fdi w of
              None \<Rightarrow> Inr (- 1, w\<lparr>errno := EBADF\<rparr>)
            | Some ctx \<Rightarrow>
                if m_isClosed ctx then Inr (- 1, w\<lparr>errno := EBADF\<rparr>)
                else if \<not> m_isSocket ctx then Inr (n, w1)
                else if m_userNonblock ctx then Inr (n, w1)
                else if n = 0 then Inr (0, w1)
                else if n \<noteq> - 1 \<or> errno w1 \<noteq> EINPROGRESS then Inr (n, w1)
                else
                  (case IOManager_GetThis w1 of
                     None \<Rightarrow> Inl NullPointer
                   | Some iom0 \<Rightarrow>
                       (case new_timer_info w1 of
                          (ti, w2) \<Rightarrow>
                            (let (timer, tm1) =
                                   (if timeout_ms \<noteq> - 1
                                    then map_prod Some id
                                           (addConditionTimer (a_now a) timeout_ms
                                              (ConnectTimeoutFn ti fdi) ti False (tmgr iom0))
                                    else (None, tmgr iom0))
                             in case addEvent (thr w2) (a_epoll a) fdi WRITE None
                                       (iom0\<lparr>tmgr := tm1\<rparr>) of
                                  Inl e \<Rightarrow> Inl e
                                | Inr (rt, iom2) \<Rightarrow>
                                    if rt = 0 then
                                      (case a_susp a (w2\<lparr>io_manager := iom2\<rparr>) of
                                         Inl e \<Rightarrow> Inl e
                                       | Inr w3 \<Rightarrow>
                                           (let w4 = cancel_timer timer w3
                                            in case timer_infos w4 ti of
                                                 None \<Rightarrow> Inl NullPointer
                                               | Some cancelled \<Rightarrow>
                                                   if cancelled \<noteq> 0 then
                                                     Inr (- 1, release_timer_info ti
                                                                 (w4\<lparr>errno := cancelled\<rparr>))
                                                   else Inr (connect_so_error r2 fdi ti w4)))
                                    else
                                      Inr (connect_so_error r2 fdi ti
                                             (cancel_timer timer (w2\<lparr>io_manager := iom2\<rparr>))))))))"

definition s_connect_timeout :: "64 word" where
  "s_connect_timeout = - 1"

definition connect :: "attempt \<Rightarrow> sysret \<Rightarrow> int \<Rightarrow> hook_world \<Rightarrow> fault + int \<times> hook_world" where
  "connect a r2 sockfd w = connect_with_timeout a r2 sockfd s_connect_timeout w"

text \<open>
  \<^verbatim>\<open>fcntl(fd, cmd, ...)\<close>. The function does not read the hook flag. Its \<^verbatim>\<open>switch\<close> reads
  the variable argument as an \<^verbatim>\<open>int\<close> for \<^verbatim>\<open>F_SETFL\<close> and the commands of \<open>int_arg_cmds\<close>, as a
  pointer for the commands of \<open>ptr_arg_cmds\<close>, and not at all for \<^verbatim>\<open>F_GETFL\<close>, the commands
  of \<open>no_arg_cmds\<close> and every command that has no \<^verbatim>\<open>case\<close> label: for those the original
  function is called with the descriptor and the command only.
\<close>

definition int_arg_cmds :: "int list" where
  "int_arg_cmds =
     [F_DUPFD, F_DUPFD_CLOEXEC, F_SETFD, F_SETOWN, F_SETSIG, F_SETLEASE, F_NOTIFY, F_SETPIPE_SZ]"

definition no_arg_cmds :: "int list" where
  "no_arg_cmds = [F_GETFD, F_GETOWN, F_GETSIG, F_GETLEASE, F_GETPIPE_SZ]"

definition ptr_arg_cmds :: "int list" where
  "ptr_arg_cmds = [F_SETLK, F_SETLKW, F_GETLK, F_GETOWN_EX, F_SETOWN_EX]"

definition fcntl ::
  "sysret \<Rightarrow> int \<Rightarrow> int \<Rightarrow> vararg \<Rightarrow> hook_world \<Rightarrow> fault + int \<times> hook_world" where
  "fcntl r fdi cmd va w =
     (if cmd = F_SETFL then
        (case va_arg_int va of
           Inl e \<Rightarrow> Inl e
         | Inr arg \<Rightarrow>
             (case FdMgr_get fdi w of
                None \<Rightarrow> Inr (sr_ret r, raw (fcntl_call fdi cmd (int_arg arg)) r w)
              | Some ctx \<Rightarrow>
                  if m_isClosed ctx \<or> \<not> m_isSocket ctx
                  then Inr (sr_ret r, raw (fcntl_call fdi cmd (int_arg arg)) r w)
                  else
                    (let ctx1 = ctx\<lparr>m_userNonblock := (arg AND O_NONBLOCK \<noteq> 0)\<rparr>;
                         arg1 = (if m_sysNonblock ctx1 then arg OR O_NONBLOCK
                                 else arg AND NOT O_NONBLOCK)
                     in Inr (sr_ret r,
                             raw (fcntl_call fdi cmd (int_arg arg1)) r (put_FdCtx fdi ctx1 w)))))
      else if cmd = F_GETFL then
        (let w1 = raw (fcntl_call fdi cmd no_arg) r w; flags = sr_ret r
         in case FdMgr_get fdi w1 of
              None \<Rightarrow> Inr (flags, w1)
            | Some ctx \<Rightarrow>
                if m_isClosed ctx \<or> \<not> m_isSocket ctx then Inr (flags, w1)
                else if m_userNonblock ctx then Inr (flags OR O_NONBLOCK, w1)
                else Inr (flags AND NOT O_NONBLOCK, w1))
      else if cmd \<in> set int_arg_cmds then
        (case va_arg_int va of
           Inl e \<Rightarrow> Inl e
         | Inr arg \<Rightarrow> Inr (sr_ret r, raw (fcntl_call fdi cmd (int_arg arg)) r w))
      else if cmd \<in> set no_arg_cmds then
        Inr (sr_ret r, raw (fcntl_call fdi cmd no_arg) r w)
      else if cmd \<in> set ptr_arg_cmds then
        (case va_arg_ptr va of
           Inl e \<Rightarrow> Inl e
         | Inr arg \<Rightarrow> Inr (sr_ret r, raw (fcntl_call fdi cmd (ptr_arg arg)) r w))
      else Inr (sr_ret r, raw (fcntl_call fdi cmd no_arg) r w))"

text \<open>
  \<^verbatim>\<open>ioctl(fd, request, ...)\<close>. The function does not read the hook flag. \<open>arg\<close> is the pointer
  read from the variable arguments and handed on to the original function, \<open>pointee\<close> the
  \<^verbatim>\<open>int\<close> found at that address (\<open>None\<close> when there is none to read). For \<^verbatim>\<open>FIONBIO\<close> the
  pointer is dereferenced before the context is looked up.
\<close>

definition ioctl ::
  "sysret \<Rightarrow> int \<Rightarrow> 64 word \<Rightarrow> nat \<Rightarrow> int option \<Rightarrow> hook_world \<Rightarrow> fault + int \<times> hook_world" where
  "ioctl r fdi request arg pointee w =
     (if request = FIONBIO then
        (case pointee of
           None \<Rightarrow> Inl NullPointer
         | Some v \<Rightarrow>
             (let user_nonblock = (v \<noteq> 0)
              in case FdMgr_get fdi w of
                   None \<Rightarrow> Inr (sr_ret r, raw (ioctl_call fdi request arg) r w)
                 | Some ctx \<Rightarrow>
                     if m_isClosed ctx \<or> \<not> m_isSocket ctx
                     then Inr (sr_ret r, raw (ioctl_call fdi request arg) r w)
                     else Inr (sr_ret r,
                               raw (ioctl_call fdi request arg) r
                                 (put_FdCtx fdi (ctx\<lparr>m_userNonblock := user_nonblock\<rparr>) w))))
      else Inr (sr_ret r, raw (ioctl_call fdi request arg) r w))"

text \<open>\<^verbatim>\<open>setsockopt(sockfd, level, optname, optval, optlen)\<close>, with the \<^verbatim>\<open>timeval\<close> that
  \<open>optval\<close> points to.\<close>

definition setsockopt ::
  "sysret \<Rightarrow> int \<Rightarrow> int \<Rightarrow> int \<Rightarrow> int \<Rightarrow> int \<Rightarrow> hook_world \<Rightarrow> int \<times> hook_world" where
  "setsockopt r sockfd level optname tv_sec tv_usec w =
     (let call = setsockopt_call sockfd level optname tv_sec tv_usec
      in if \<not> t_hook_enable w then (sr_ret r, raw call r w)
         else if level = SOL_SOCKET \<and> (optname = SO_RCVTIMEO \<or> optname = SO_SNDTIMEO) then
           (case FdMgr_get sockfd w of
              None \<Rightarrow> (sr_ret r, raw call r w)
            | Some ctx \<Rightarrow>
                (sr_ret r,
                 raw call r
                   (put_FdCtx sockfd
                      (setTimeout optname
                         (word_of_int (tv_sec * 1000 + div_trunc tv_usec 1000)) ctx)
                      w)))
         else (sr_ret r, raw call r w))"

text \<open>
  The contexts that the code can build: \<^verbatim>\<open>m_isClosed\<close> is initialised to \<^verbatim>\<open>false\<close> and no
  member function assigns it.
\<close>

inductive FdCtx_made :: "FdCtx \<Rightarrow> bool" where
  made_ctor: "FdCtx_made (fst (FdCtx_ctor fdi st gf sf w))"
| made_setUserNonblock: "FdCtx_made c \<Longrightarrow> FdCtx_made (c\<lparr>m_userNonblock := v\<rparr>)"
| made_setSysNonblock: "FdCtx_made c \<Longrightarrow> FdCtx_made (c\<lparr>m_sysNonblock := v\<rparr>)"
| made_setTimeout: "FdCtx_made c \<Longrightarrow> FdCtx_made (setTimeout type t c)"

text \<open>
  Example states of the interposition layer: answers of system calls that succeed with a
  value or fail with an error number, a world with no context, a world where descriptor 1
  is a socket with a context, the same with the hook enabled and a receive timeout of
  50 ms set through \<open>setsockopt\<close>; a round in which nothing happens while the fiber is
  parked, one in which the timer's callable runs, one in which it runs and the
  \<^verbatim>\<open>epoll_ctl\<close> call of its \<open>cancelEvent\<close> fails, one in which the parked event is fired.
\<close>

definition sys_ok :: "int \<Rightarrow> sysret" where
  "sys_ok n = \<lparr> sr_ret = n, sr_errno = 0, sr_out = 0 \<rparr>"

definition sys_fail :: "int \<Rightarrow> sysret" where
  "sys_fail e = \<lparr> sr_ret = - 1, sr_errno = e, sr_out = 0 \<rparr>"

definition empty_world :: hook_world where
  "empty_world =
     \<lparr> t_hook_enable = False, thr = env0, errno = 0, m_datas = [None, None],
       io_manager = small_iom, timer_infos = (\<lambda>_. None), next_timer_info = 0,
       sys_calls = [] \<rparr>"

definition socket_world :: hook_world where
  "socket_world =
     empty_world\<lparr>m_datas :=
        [None, Some (fst (FdCtx_ctor 1 \<lparr>sr_ret = 0, sr_errno = 0, sr_out = 1\<rparr> (sys_ok 2)
                           (sys_ok 0) empty_world))]\<rparr>"

definition no_susp :: "hook_world \<Rightarrow> fault + hook_world" where
  "no_susp w = Inr w"

definition plain_attempt :: "sysret \<Rightarrow> attempt" where
  "plain_attempt r = \<lparr> a_ret = r, a_now = 0, a_epoll = 0, a_susp = no_susp \<rparr>"

definition timeout_world :: hook_world where
  "timeout_world =
     snd (setsockopt (sys_ok 0) 1 SOL_SOCKET SO_RCVTIMEO 0 50000
            (socket_world\<lparr>t_hook_enable := True\<rparr>))"

definition timer_fires :: attempt where
  "timer_fires =
     \<lparr> a_ret = sys_fail EAGAIN, a_now = 0, a_epoll = 0,
       a_susp = run_callable (OnTimerFn 0 (IoTimeoutFn 0 1 READ)) 0 \<rparr>"

definition timer_fires_epoll_fails :: attempt where
  "timer_fires_epoll_fails =
     \<lparr> a_ret = sys_fail EAGAIN, a_now = 0, a_epoll = 0,
       a_susp = run_callable (OnTimerFn 0 (IoTimeoutFn 0 1 READ)) (- 1) \<rparr>"

definition fd_ready :: attempt where
  "fd_ready =
     \<lparr> a_ret = sys_fail EAGAIN, a_now = 0, a_epoll = 0,
       a_susp = (\<lambda>w. case cancelEvent 0 1 READ (io_manager w) of
                        Inl e \<Rightarrow> Inl e
                      | Inr (_, iom') \<Rightarrow> Inr (w\<lparr>io_manager := iom'\<rparr>)) \<rparr>"

text \<open>
  Representation invariant of the \<^verbatim>\<open>std::set\<close>: its keys are strictly increasing under the
  comparator. \<open>clock_value\<close> is the range of the clock's signed 64-bit tick count.
\<close>

definition timers_ordered :: "TimerManager \<Rightarrow> bool" where
  "timers_ordered tm =
     sorted_wrt (\<lambda>a b. m_next (timer_objs tm a) < m_next (timer_objs tm b)) (m_timers tm)"

definition clock_value :: "time_point \<Rightarrow> bool" where
  "clock_value x = (- (2 ^ 63) \<le> x \<and> x < 2 ^ 63)"

section \<open>Fiber stack size\<close>

lemma ucast_32_64_id:
  assumes "(x :: 64 word) < 2 ^ 32"
  shows "(ucast (ucast x :: 32 word) :: 64 word) = x"
proof -
  from assms have "unat x < 2 ^ 32" by (simp add: word_less_nat_alt)
  then have "take_bit 32 (unat x) = unat x" by (rule take_bit_nat_eq_self)
  then show ?thesis
    by (simp add: word_unat_eq_iff unsigned_ucast_eq unsigned_take_bit_eq)
qed

text \<open>
  Claim C3, as stated, fails: a fiber created with \<open>stacksize = 0\<close> gets a stack of
  128000 bytes, not of 131072 bytes (128 KiB).
\<close>

theorem Fiber_default_stack_not_128KiB:
  "m_stack_bytes (Fiber_ctor 0 None 0 True) \<noteq> 131072"
  by (simp add: Fiber_ctor_def)

text \<open>
  Claim C3, amended: creating a fiber with \<open>stacksize = 0\<close> allocates a private stack of
  exactly 128000 bytes (also the size recorded in the context); a caller-supplied non-zero
  \<open>stacksize\<close> below \<open>2 ^ 32\<close> is used verbatim.
\<close>

theorem Fiber_stacksize:
  "m_stack_bytes (Fiber_ctor i body 0 r) = 128000 \<and>
   ss_size (Fiber_ctor i body 0 r) = 128000 \<and>
   (stacksize \<noteq> 0 \<longrightarrow> stacksize < 2 ^ 32 \<longrightarrow>
      m_stack_bytes (Fiber_ctor i body stacksize r) = stacksize \<and>
      ss_size (Fiber_ctor i body stacksize r) = stacksize)"
  by (simp add: Fiber_ctor_def ucast_32_64_id)

text \<open>Claim C3, witness: a caller asking for 65536 bytes gets 65536 bytes.\<close>

theorem Fiber_stacksize_witness:
  "(65536 :: 64 word) \<noteq> 0 \<and> (65536 :: 64 word) < 2 ^ 32 \<and>
   m_stack_bytes (Fiber_ctor 7 (Some 1) 65536 True) = 65536 \<and>
   ss_size (Fiber_ctor 7 (Some 1) 65536 True) = 65536 \<and>
   m_stack_bytes (Fiber_ctor 7 (Some 1) 0 True) = 128000"
  using Fiber_stacksize [of 7 "Some 1" True 65536] by simp


section \<open>TimerManager: equal deadlines\<close>

lemma int64_id: "clock_value x \<Longrightarrow> int64 x = x"
  by (simp add: int64_def clock_value_def signed_of_int signed_take_bit_int_eq_self)

lemmas timer_defs =
  addTimer_def addTimer_handle_def TimerManager_ctor_def Timer_ctor_def milliseconds_def
  Comparator_def cancel_def upd_timer_def set_erase_def Let_def int64_id clock_value_def

text \<open>
  Claim C1 at a failing input: timer \<open>a\<close> is added at time 0 with 100 ms, timer \<open>b\<close> 50 ms
  later with 50 ms, so both have the same next-deadline. The set keeps only \<open>a\<close>
  (\<open>b\<close> is not retained), and \<open>cancel\<close> on \<open>b\<close> erases \<open>a\<close> from the set, leaving
  \<open>a\<close> with its callable but outside the set.
\<close>

theorem equal_deadline_timer_lost:
  "(case addTimer 0 100 (Some (UserFn 1)) False (TimerManager_ctor 0) of
      (a, tm1) \<Rightarrow>
        case addTimer 50000000 50 (Some (UserFn 2)) False tm1 of
          (b, tm2) \<Rightarrow>
            case cancel b tm2 of
              (r, tm3) \<Rightarrow>
                a \<noteq> b \<and>
                m_next (timer_objs tm2 a) = m_next (timer_objs tm2 b) \<and>
                m_timers tm2 = [a] \<and>
                r \<and> m_timers tm3 = [] \<and>
                m_cb (timer_objs tm3 a) = Some (UserFn 1))"
  by (simp add: timer_defs)

section \<open>Timer::reset\<close>

lemma reset_same_period_noop:
  "reset now this (m_ms (timer_objs tm this)) False tm = (True, tm)"
  by (simp add: reset_def)

text \<open>
  Claim C10 at a failing input: \<open>a\<close> (100 ms) and \<open>b\<close> (200 ms) are added at time 0 and
  both are in the set. \<open>reset a 200 False\<close> finds \<open>a\<close>, erases it and computes the new
  deadline \<open>0 + 200 ms\<close>, which is the deadline of \<open>b\<close>: the call returns \<open>True\<close>, but
  \<open>a\<close> is not re-inserted, the set holds \<open>b\<close> only.
\<close>

theorem reset_onto_equal_deadline_drops_timer:
  "(case addTimer 0 100 (Some (UserFn 1)) False (TimerManager_ctor 0) of
      (a, tm1) \<Rightarrow>
        case addTimer 0 200 (Some (UserFn 2)) False tm1 of
          (b, tm2) \<Rightarrow>
            case reset 50000000 a 200 False tm2 of
              (r, tm3) \<Rightarrow>
                a \<noteq> b \<and> m_timers tm2 = [a, b] \<and>
                r \<and> m_timers tm3 = [b] \<and>
                m_cb (timer_objs tm3 a) = Some (UserFn 1) \<and>
                m_ms (timer_objs tm3 a) = 200 \<and>
                m_next (timer_objs tm3 a) = 200000000)"
  by (simp add: timer_defs reset_def)

section \<open>TimerManager::listExpiredCb under a clock rollover\<close>

lemma loop_single_recurring:
  "m_timers tm = [t] \<Longrightarrow> m_recurring (timer_objs tm t) \<Longrightarrow>
   listExpiredCb_loop fuel now True tm cbs = None"
proof (induction fuel arbitrary: tm cbs)
  case 0
  then show ?case by (simp add: listExpiredCb_loop.simps)
next
  case (Suc k)
  let ?tm2 = "upd_timer t (\<lambda>t. t\<lparr>m_next := int64 (now + milliseconds (m_ms t))\<rparr>) (tm\<lparr>m_timers := []\<rparr>)"
  have a: "m_timers (?tm2\<lparr>m_timers := [t]\<rparr>) = [t]" by simp
  have b: "m_recurring (timer_objs (?tm2\<lparr>m_timers := [t]\<rparr>) t)"
    using Suc.prems by (simp add: upd_timer_def)
  have "listExpiredCb_loop (Suc k) now True tm cbs =
        listExpiredCb_loop k now True (?tm2\<lparr>m_timers := [t]\<rparr>) (cbs @ [m_cb (timer_objs tm t)])"
    using Suc.prems
    by (subst listExpiredCb_loop.simps) (simp add: upd_timer_def Let_def)
  then show ?case using Suc.IH [OF a b] by simp
qed

text \<open>
  Claim C5 at a failing input: a manager created when the clock reads 2 h + 1 ms holds one
  recurring timer of 1000 ms; the clock is then set back to 0, more than one hour behind
  the previous check. \<open>listExpiredCb\<close> does not return: whatever the bound on the number
  of iterations, the loop is still running when the bound is used up.
\<close>

theorem listExpiredCb_rollover_recurring_diverges:
  "\<forall>fuel.
     (case addTimer 7200001000000 1000 (Some (UserFn 1)) True (TimerManager_ctor 7200001000000) of
        (a, tm) \<Rightarrow> listExpiredCb fuel 0 0 tm []) = None"
  by (simp add: listExpiredCb_def detectClockRollover_def timer_defs loop_single_recurring)

section \<open>TimerManager: the set stays ordered\<close>

text \<open>
  Every operation of the timer manager keeps the keys of \<open>m_timers\<close> strictly increasing
  under the comparator: the constructor establishes the invariant, and \<open>addTimer\<close> (for a
  fresh handle), \<open>cancel\<close>, \<open>refresh\<close>, \<open>reset\<close>, \<open>getNextTimer\<close> and \<open>listExpiredCb\<close>
  preserve it. A timer whose deadline is rewritten has been erased from the set before, so
  the keys of the stored timers never change while they are stored.
\<close>

lemma set_insert_subset: "set (fst (set_insert lt x xs)) \<subseteq> insert x (set xs)"
  by (induction xs) (auto split: prod.splits)

lemma set_insert_sorted:
  fixes k :: "'a \<Rightarrow> int"
  assumes "sorted_wrt (\<lambda>a b. k a < k b) xs"
  shows "sorted_wrt (\<lambda>a b. k a < k b) (fst (set_insert (\<lambda>a b. k a < k b) x xs))"
  using assms
proof (induction xs)
  case Nil
  then show ?case by simp
next
  case (Cons y ys)
  show ?case
  proof (cases "k y < k x")
    case True
    have "\<forall>z \<in> set (fst (set_insert (\<lambda>a b. k a < k b) x ys)). k y < k z"
      using set_insert_subset [of "\<lambda>a b. k a < k b" x ys] Cons.prems True by auto
    with Cons True show ?thesis by (auto split: prod.splits)
  next
    case False
    with Cons.prems show ?thesis by (auto split: prod.splits)
  qed
qed

lemma set_erase_subset: "set (set_erase i xs) \<subseteq> set xs"
  by (auto simp add: set_erase_def dest: in_set_takeD in_set_dropD)

lemma set_erase_sorted:
  assumes s: "sorted_wrt P xs"
  shows "sorted_wrt P (set_erase i xs)"
proof -
  from s have "sorted_wrt P (take i xs @ drop i xs)" by simp
  then have a: "sorted_wrt P (take i xs)"
    and c: "\<forall>a \<in> set (take i xs). \<forall>b \<in> set (drop i xs). P a b"
    unfolding sorted_wrt_append by blast+
  have b: "sorted_wrt P (drop (Suc i) xs)"
    using s by (rule sorted_wrt_drop)
  have "set (drop (Suc i) xs) \<subseteq> set (drop i xs)"
    by (rule set_drop_subset_set_drop) simp
  with a b c show ?thesis
    unfolding set_erase_def sorted_wrt_append by blast
qed

lemma set_find_erase_absent:
  fixes k :: "'a \<Rightarrow> int"
  assumes "sorted_wrt (\<lambda>a b. k a < k b) xs" "set_find (\<lambda>a b. k a < k b) x xs = Some i"
  shows "\<forall>y \<in> set (set_erase i xs). k y \<noteq> k x"
  using assms
proof (induction xs arbitrary: i)
  case Nil
  then show ?case by simp
next
  case (Cons y ys)
  show ?case
  proof (cases "k y < k x")
    case True
    with Cons.prems(2) obtain j where j: "set_find (\<lambda>a b. k a < k b) x ys = Some j" "i = Suc j"
      by auto
    with Cons True show ?thesis by (auto simp add: set_erase_def)
  next
    case False
    with Cons.prems(2) have "i = 0" "k x = k y" by (auto split: if_splits)
    with Cons.prems(1) show ?thesis by (auto simp add: set_erase_def)
  qed
qed

lemma sorted_key_cong:
  assumes "\<forall>y \<in> set xs. k y = k' y"
  shows "sorted_wrt (\<lambda>a b. (k a :: int) < k b) xs = sorted_wrt (\<lambda>a b. k' a < k' b) xs"
  using assms by (induction xs) auto


lemma Comparator_key:
  "Comparator objs = (\<lambda>a b. m_next (objs a) < m_next (objs b))"
  by (rule ext)+ (simp add: Comparator_def)

lemma timers_ordered_ctor: "timers_ordered (TimerManager_ctor now)"
  by (simp add: timers_ordered_def TimerManager_ctor_def)

lemma timers_ordered_insert:
  assumes "timers_ordered tm"
  shows "timers_ordered
           (tm\<lparr>m_timers := fst (set_insert (Comparator (timer_objs tm)) h (m_timers tm))\<rparr>)"
  using set_insert_sorted [of "\<lambda>h. m_next (timer_objs tm h)" "m_timers tm" h] assms
  by (simp add: timers_ordered_def Comparator_key)

lemma timers_ordered_addTimer_handle:
  assumes "timers_ordered tm"
  shows "timers_ordered (addTimer_handle h tm)"
  using timers_ordered_insert [OF assms, of h]
  by (auto simp add: addTimer_handle_def Let_def timers_ordered_def split: prod.splits)

lemma timers_ordered_upd_absent:
  assumes "timers_ordered tm" "h \<notin> set (m_timers tm)"
  shows "timers_ordered (upd_timer h f tm)"
proof -
  have "\<forall>y \<in> set (m_timers tm).
          m_next (timer_objs tm y) = m_next (((timer_objs tm)(h := f (timer_objs tm h))) y)"
    using assms(2) by auto
  from sorted_key_cong [OF this] assms(1) show ?thesis
    by (simp add: timers_ordered_def upd_timer_def)
qed

lemma timers_ordered_upd_same_key:
  assumes "timers_ordered tm" "\<And>t. m_next (f t) = m_next t"
  shows "timers_ordered (upd_timer h f tm)"
proof -
  have "\<forall>y \<in> set (m_timers tm).
          m_next (timer_objs tm y) = m_next (((timer_objs tm)(h := f (timer_objs tm h))) y)"
    using assms(2) by auto
  from sorted_key_cong [OF this] assms(1) show ?thesis
    by (simp add: timers_ordered_def upd_timer_def)
qed

lemma timers_ordered_erase:
  assumes "timers_ordered tm"
  shows "timers_ordered (tm\<lparr>m_timers := set_erase i (m_timers tm)\<rparr>)"
  using set_erase_sorted [of _ "m_timers tm" i] assms by (simp add: timers_ordered_def)

lemma erase_found_absent:
  assumes "timers_ordered tm"
    and "set_find (Comparator (timer_objs tm)) h (m_timers tm) = Some i"
  shows "h \<notin> set (set_erase i (m_timers tm))"
  using set_find_erase_absent [of "\<lambda>h. m_next (timer_objs tm h)" "m_timers tm" h i] assms
  by (auto simp add: timers_ordered_def Comparator_key)

lemma set_find_None_absent:
  fixes k :: "'a \<Rightarrow> int"
  assumes "sorted_wrt (\<lambda>a b. k a < k b) xs" "set_find (\<lambda>a b. k a < k b) x xs = None"
  shows "\<forall>y \<in> set xs. k y \<noteq> k x"
  using assms
proof (induction xs)
  case Nil
  then show ?case by simp
next
  case (Cons y ys)
  show ?case
  proof (cases "k y < k x")
    case True
    with Cons show ?thesis by auto
  next
    case False
    with Cons.prems(2) have "k x < k y" by (auto split: if_splits)
    with Cons.prems(1) show ?thesis by auto
  qed
qed

lemma timers_ordered_addTimer:
  assumes "timers_ordered tm" "next_handle tm \<notin> set (m_timers tm)"
  shows "timers_ordered (snd (addTimer now ms cbk recurring tm))"
proof -
  let ?tm1 = "tm\<lparr>timer_objs := (timer_objs tm)(next_handle tm := Timer_ctor now ms cbk recurring),
                  next_handle := Suc (next_handle tm)\<rparr>"
  have "timers_ordered (upd_timer (next_handle tm) (\<lambda>_. Timer_ctor now ms cbk recurring) tm)"
    using assms by (rule timers_ordered_upd_absent)
  then have "timers_ordered ?tm1" by (simp add: timers_ordered_def upd_timer_def)
  then have "timers_ordered (addTimer_handle (next_handle tm) ?tm1)"
    by (rule timers_ordered_addTimer_handle)
  then show ?thesis by (simp add: addTimer_def Let_def)
qed

lemma timers_ordered_cancel:
  assumes "timers_ordered tm"
  shows "timers_ordered (snd (cancel this tm))"
proof (cases "m_cb (timer_objs tm this) = None")
  case True
  with assms show ?thesis by (simp add: cancel_def)
next
  case False
  let ?tm1 = "upd_timer this (\<lambda>t. t\<lparr>m_cb := None\<rparr>) tm"
  have o1: "timers_ordered ?tm1" using assms by (rule timers_ordered_upd_same_key) simp
  show ?thesis
  proof (cases "set_find (Comparator (timer_objs ?tm1)) this (m_timers ?tm1)")
    case None
    with False o1 show ?thesis by (simp add: cancel_def Let_def del: not_None_eq)
  next
    case (Some it)
    with False timers_ordered_erase [OF o1, of it] show ?thesis
      by (simp add: cancel_def Let_def del: not_None_eq)
  qed
qed

lemma cancel_removes:
  assumes ord: "timers_ordered tm" and live: "m_cb (timer_objs tm this) \<noteq> None"
  shows "this \<notin> set (m_timers (snd (cancel this tm)))"
proof -
  let ?tm1 = "upd_timer this (\<lambda>t. t\<lparr>m_cb := None\<rparr>) tm"
  have o1: "timers_ordered ?tm1" using ord by (rule timers_ordered_upd_same_key) simp
  show ?thesis
  proof (cases "set_find (Comparator (timer_objs ?tm1)) this (m_timers ?tm1)")
    case None
    from set_find_None_absent [of "\<lambda>h. m_next (timer_objs ?tm1 h)" "m_timers ?tm1" this] o1 None
    have "this \<notin> set (m_timers ?tm1)"
      by (auto simp add: timers_ordered_def Comparator_key)
    with live None show ?thesis by (simp add: cancel_def Let_def del: not_None_eq)
  next
    case (Some it)
    from erase_found_absent [OF o1 Some] live Some show ?thesis
      by (simp add: cancel_def Let_def del: not_None_eq)
  qed
qed

lemma timers_ordered_refresh:
  assumes "timers_ordered tm"
  shows "timers_ordered (snd (refresh now this tm))"
proof (cases "m_cb (timer_objs tm this) = None")
  case True
  with assms show ?thesis by (simp add: refresh_def)
next
  case False
  show ?thesis
  proof (cases "set_find (Comparator (timer_objs tm)) this (m_timers tm)")
    case None
    with False assms show ?thesis by (simp add: refresh_def del: not_None_eq)
  next
    case (Some it)
    let ?tm1 = "tm\<lparr>m_timers := set_erase it (m_timers tm)\<rparr>"
    let ?tm2 = "upd_timer this (\<lambda>t. t\<lparr>m_next := int64 (now + milliseconds (m_ms t))\<rparr>) ?tm1"
    have o1: "timers_ordered ?tm1" using assms by (rule timers_ordered_erase)
    have "this \<notin> set (m_timers ?tm1)" using erase_found_absent [OF assms Some] by simp
    with o1 have o2: "timers_ordered ?tm2" by (rule timers_ordered_upd_absent)
    from timers_ordered_insert [OF o2, of this] False Some show ?thesis
      by (simp add: refresh_def Let_def case_prod_beta del: not_None_eq)
  qed
qed

lemma timers_ordered_reset:
  assumes "timers_ordered tm"
  shows "timers_ordered (snd (reset now this ms from_now tm))"
proof (cases "(ms = m_ms (timer_objs tm this) \<and> \<not> from_now) \<or> m_cb (timer_objs tm this) = None")
  case True
  with assms show ?thesis by (auto simp add: reset_def)
next
  case False
  show ?thesis
  proof (cases "set_find (Comparator (timer_objs tm)) this (m_timers tm)")
    case None
    with False assms show ?thesis by (simp add: reset_def del: not_None_eq)
  next
    case (Some it)
    let ?tm1 = "tm\<lparr>m_timers := set_erase it (m_timers tm)\<rparr>"
    have o1: "timers_ordered ?tm1" using assms by (rule timers_ordered_erase)
    have ab: "this \<notin> set (m_timers ?tm1)" using erase_found_absent [OF assms Some] by simp
    have "timers_ordered (addTimer_handle this (upd_timer this f ?tm1))" for f
      using timers_ordered_upd_absent [OF o1 ab] by (rule timers_ordered_addTimer_handle)
    with False Some show ?thesis
      by (auto simp add: reset_def Let_def simp del: not_None_eq)
  qed
qed

lemma timers_ordered_getNextTimer:
  assumes "timers_ordered tm"
  shows "timers_ordered (snd (getNextTimer now tm))"
  using assms by (simp add: getNextTimer_def Let_def timers_ordered_def split: list.split)

lemma timers_ordered_loop:
  assumes "timers_ordered tm" "listExpiredCb_loop fuel now rollover tm cbs = Some (tm', cbs')"
  shows "timers_ordered tm'"
  using assms
proof (induction fuel arbitrary: tm cbs)
  case 0
  then show ?case
    by (auto simp add: listExpiredCb_loop.simps [of 0] split: list.splits if_splits)
next
  case (Suc k)
  show ?case
  proof (cases "m_timers tm")
    case Nil
    with Suc.prems show ?thesis by (simp add: listExpiredCb_loop.simps [of "Suc k"])
  next
    case (Cons temp rest)
    show ?thesis
    proof (cases "rollover \<or> m_next (timer_objs tm temp) \<le> now")
      case False
      with Cons Suc.prems show ?thesis by (simp add: listExpiredCb_loop.simps [of "Suc k"])
    next
      case True
      let ?tm1 = "tm\<lparr>m_timers := rest\<rparr>"
      have o1: "timers_ordered ?tm1" and ab: "temp \<notin> set (m_timers ?tm1)"
        using Suc.prems(1) Cons by (auto simp add: timers_ordered_def)
      show ?thesis
      proof (cases "m_recurring (timer_objs tm temp)")
        case rec: True
        let ?tm2 = "upd_timer temp (\<lambda>t. t\<lparr>m_next := int64 (now + milliseconds (m_ms t))\<rparr>) ?tm1"
        have o2: "timers_ordered ?tm2" using o1 ab by (rule timers_ordered_upd_absent)
        let ?tm3 = "?tm2\<lparr>m_timers :=
                       fst (set_insert (Comparator (timer_objs ?tm2)) temp (m_timers ?tm2))\<rparr>"
        have o3: "timers_ordered ?tm3" using o2 by (rule timers_ordered_insert)
        have "listExpiredCb_loop k now rollover ?tm3 (cbs @ [m_cb (timer_objs tm temp)])
                = Some (tm', cbs')"
          using Suc.prems(2) Cons True rec
          by (simp add: listExpiredCb_loop.simps [of "Suc k"] Let_def split: prod.splits)
        with o3 show ?thesis by (rule Suc.IH)
      next
        case nrec: False
        let ?tm2 = "upd_timer temp (\<lambda>t. t\<lparr>m_cb := None\<rparr>) ?tm1"
        have o2: "timers_ordered ?tm2" using o1 ab by (rule timers_ordered_upd_absent)
        have "listExpiredCb_loop k now rollover ?tm2 (cbs @ [m_cb (timer_objs tm temp)])
                = Some (tm', cbs')"
          using Suc.prems(2) Cons True nrec
          by (simp add: listExpiredCb_loop.simps [of "Suc k"] Let_def)
        with o2 show ?thesis by (rule Suc.IH)
      qed
    qed
  qed
qed

lemma timers_ordered_listExpiredCb:
  assumes "timers_ordered tm" "listExpiredCb fuel now now' tm cbs = Some (tm', cbs')"
  shows "timers_ordered tm'"
proof -
  have "timers_ordered (tm\<lparr>m_previouseTime := now'\<rparr>)"
    using assms(1) by (simp add: timers_ordered_def)
  with assms(2) show ?thesis
    by (auto simp add: listExpiredCb_def detectClockRollover_def dest: timers_ordered_loop)
qed

section \<open>TimerManager::getNextTimer\<close>

lemma remaining_ms_word:
  fixes d :: int
  assumes "0 < d" "d < 2 ^ 64"
  shows "uint (word_of_int (d div 1000000) :: 64 word) = d div 1000000"
    and "(word_of_int (d div 1000000) :: 64 word) \<noteq> - 1"
    and "((word_of_int (d div 1000000) :: 64 word) = 0) = (d < 1000000)"
proof -
  let ?q = "d div 1000000"
  have q0: "0 \<le> ?q" using assms by simp
  have qd: "?q < 18446744073710" using assms by simp
  then have q64: "?q < 2 ^ 64" by simp
  show u: "uint (word_of_int ?q :: 64 word) = ?q"
    using q0 q64 by (simp add: uint_word_of_int take_bit_int_eq_self)
  show "(word_of_int ?q :: 64 word) \<noteq> - 1"
  proof
    assume "(word_of_int ?q :: 64 word) = - 1"
    then have "uint (word_of_int ?q :: 64 word) = uint (- 1 :: 64 word)" by simp
    with u have "?q = 2 ^ 64 - 1" by (simp add: unsigned_minus_1_eq_mask mask_eq_exp_minus_1)
    with qd show False by simp
  qed
  have "((word_of_int ?q :: 64 word) = 0) = (uint (word_of_int ?q :: 64 word) = 0)"
    by (simp add: uint_0_iff)
  also have "\<dots> = (?q = 0)" using u by simp
  also have "\<dots> = (d < 1000000)" using assms by (auto simp add: zdiv_eq_0_iff)
  finally show "((word_of_int ?q :: 64 word) = 0) = (d < 1000000)" .
qed


lemma remaining_ns:
  assumes "0 < d" "d < 2 ^ 63"
  shows "div_trunc (int64 d) 1000000 = d div 1000000"
proof -
  from assms have "int64 d = d" by (simp add: int64_id clock_value_def)
  with assms show ?thesis by (simp add: div_trunc_def)
qed

lemma ordered_head_least:
  assumes "timers_ordered tm" "m_timers tm = t # ts" "u \<in> set (m_timers tm)"
  shows "m_next (timer_objs tm t) \<le> m_next (timer_objs tm u)"
  using assms by (auto simp add: timers_ordered_def)

lemma getNextTimer_cases:
  assumes ord: "timers_ordered tm"
    and near: "\<forall>t \<in> set (m_timers tm). m_next (timer_objs tm t) - now < 2 ^ 63"
  shows "(fst (getNextTimer now tm) = - 1) = (m_timers tm = [])"
    and "(fst (getNextTimer now tm) = 0) =
         (\<exists>t \<in> set (m_timers tm). m_next (timer_objs tm t) - now < 1000000)"
    and "m_timers tm \<noteq> [] \<Longrightarrow>
         \<forall>t \<in> set (m_timers tm). 1000000 \<le> m_next (timer_objs tm t) - now \<Longrightarrow>
         (\<exists>t \<in> set (m_timers tm).
            (\<forall>u \<in> set (m_timers tm). m_next (timer_objs tm t) \<le> m_next (timer_objs tm u)) \<and>
            uint (fst (getNextTimer now tm)) = (m_next (timer_objs tm t) - now) div 1000000)"
    and "snd (getNextTimer now tm) = tm\<lparr>m_tickled := False\<rparr>"
proof -
  show "snd (getNextTimer now tm) = tm\<lparr>m_tickled := False\<rparr>"
    by (simp add: getNextTimer_def Let_def split: list.split)
  show "(fst (getNextTimer now tm) = - 1) = (m_timers tm = [])"
  proof (cases "m_timers tm")
    case Nil
    then show ?thesis by (simp add: getNextTimer_def)
  next
    case (Cons t ts)
    let ?d = "m_next (timer_objs tm t) - now"
    have d63: "?d < 2 ^ 63" using near Cons by simp
    then have d64: "?d < 2 ^ 64" by simp
    show ?thesis
    proof (cases "m_next (timer_objs tm t) \<le> now")
      case True
      with Cons show ?thesis by (simp add: getNextTimer_def)
    next
      case False
      then have "0 < ?d" by simp
      from remaining_ms_word(2) [OF this d64] remaining_ns [OF this d63] False Cons
      show ?thesis by (simp add: getNextTimer_def)
    qed
  qed
  show "(fst (getNextTimer now tm) = 0) =
         (\<exists>t \<in> set (m_timers tm). m_next (timer_objs tm t) - now < 1000000)"
  proof (cases "m_timers tm")
    case Nil
    then show ?thesis by (simp add: getNextTimer_def)
  next
    case (Cons t ts)
    let ?d = "m_next (timer_objs tm t) - now"
    have least: "\<And>u. u \<in> set (m_timers tm) \<Longrightarrow> ?d \<le> m_next (timer_objs tm u) - now"
      using ordered_head_least [OF ord Cons] by simp
    have ex: "(\<exists>u \<in> set (m_timers tm). m_next (timer_objs tm u) - now < 1000000) = (?d < 1000000)"
    proof
      assume "\<exists>u \<in> set (m_timers tm). m_next (timer_objs tm u) - now < 1000000"
      then obtain u where "u \<in> set (m_timers tm)" "m_next (timer_objs tm u) - now < 1000000"
        by blast
      with least [of u] show "?d < 1000000" by simp
    next
      assume "?d < 1000000"
      moreover have "t \<in> set (m_timers tm)" using Cons by simp
      ultimately show "\<exists>u \<in> set (m_timers tm). m_next (timer_objs tm u) - now < 1000000"
        by blast
    qed
    have d63: "?d < 2 ^ 63" using near Cons by simp
    then have d64: "?d < 2 ^ 64" by simp
    show ?thesis
    proof (cases "m_next (timer_objs tm t) \<le> now")
      case True
      with Cons ex show ?thesis by (simp add: getNextTimer_def)
    next
      case False
      then have "0 < ?d" by simp
      from remaining_ms_word(3) [OF this d64] remaining_ns [OF this d63] False Cons ex
      show ?thesis by (simp add: getNextTimer_def)
    qed
  qed
  show "\<exists>t \<in> set (m_timers tm).
            (\<forall>u \<in> set (m_timers tm). m_next (timer_objs tm t) \<le> m_next (timer_objs tm u)) \<and>
            uint (fst (getNextTimer now tm)) = (m_next (timer_objs tm t) - now) div 1000000"
    if ne: "m_timers tm \<noteq> []"
      and far: "\<forall>t \<in> set (m_timers tm). 1000000 \<le> m_next (timer_objs tm t) - now"
  proof -
    from ne obtain t ts where Cons: "m_timers tm = t # ts" by (cases "m_timers tm") auto
    let ?d = "m_next (timer_objs tm t) - now"
    have tin: "t \<in> set (m_timers tm)" using Cons by simp
    have d63: "?d < 2 ^ 63" using near tin by blast
    then have d64: "?d < 2 ^ 64" by simp
    from far tin have big: "1000000 \<le> ?d" by blast
    then have pos: "0 < ?d" by simp
    from big have "\<not> m_next (timer_objs tm t) \<le> now" by simp
    with remaining_ms_word(1) [OF pos d64] remaining_ns [OF pos d63] Cons
    have "uint (fst (getNextTimer now tm)) = ?d div 1000000"
      by (simp add: getNextTimer_def)
    moreover have "\<forall>u \<in> set (m_timers tm). m_next (timer_objs tm t) \<le> m_next (timer_objs tm u)"
      using ordered_head_least [OF ord Cons] by blast
    ultimately show ?thesis using tin by blast
  qed
qed

text \<open>
  Claim C4, as stated, fails: a timer of 1 ms is added when the clock reads 1.5 ms, so its
  deadline is 2.5 ms. At 2.0 ms \<open>getNextTimer\<close> returns 0 although the only timer of the
  set is not due (its deadline is later than now).
\<close>

theorem getNextTimer_zero_without_due_timer:
  "fst (getNextTimer 2000000
          (snd (addTimer 1500000 1 (Some (UserFn 1)) False (TimerManager_ctor 0)))) = 0 \<and>
   m_timers (snd (addTimer 1500000 1 (Some (UserFn 1)) False (TimerManager_ctor 0))) = [0] \<and>
   \<not> m_next (timer_objs
              (snd (addTimer 1500000 1 (Some (UserFn 1)) False (TimerManager_ctor 0))) 0)
       \<le> 2000000"
  by (simp add: getNextTimer_def timer_defs div_trunc_def)

text \<open>
  Claim C4, amended: on a well-formed timer set whose deadlines are all less than
  \<open>2 ^ 63\<close> nanoseconds (about 292 years) after now, so that the subtraction of the two
  clock values does not overflow, \<open>getNextTimer\<close> returns the sentinel \<^verbatim>\<open>~0ull\<close> if and only
  if the set is empty; it returns 0 if and only if some timer's deadline is less than one
  millisecond after now (due, or due within the current millisecond); otherwise it returns
  the whole number of milliseconds from now until the earliest deadline. It clears
  \<open>m_tickled\<close> on every call and changes nothing else.
\<close>

theorem getNextTimer_spec:
  "timers_ordered tm \<Longrightarrow>
   \<forall>t \<in> set (m_timers tm). m_next (timer_objs tm t) - now < 2 ^ 63 \<Longrightarrow>
   ((fst (getNextTimer now tm) = - 1) = (m_timers tm = [])) \<and>
   ((fst (getNextTimer now tm) = 0) =
      (\<exists>t \<in> set (m_timers tm). m_next (timer_objs tm t) - now < 1000000)) \<and>
   (m_timers tm \<noteq> [] \<and>
    (\<forall>t \<in> set (m_timers tm). 1000000 \<le> m_next (timer_objs tm t) - now) \<longrightarrow>
      (\<exists>t \<in> set (m_timers tm).
         (\<forall>u \<in> set (m_timers tm). m_next (timer_objs tm t) \<le> m_next (timer_objs tm u)) \<and>
         uint (fst (getNextTimer now tm)) = (m_next (timer_objs tm t) - now) div 1000000)) \<and>
   snd (getNextTimer now tm) = tm\<lparr>m_tickled := False\<rparr>"
  using getNextTimer_cases [of tm now] by blast

text \<open>
  Claim C4, witness: timers of 100 ms and 200 ms added at time 0, queried at 50 ms. The
  set is ordered and not empty, no deadline is nearer than one millisecond or further
  than \<open>2 ^ 63\<close> nanoseconds, and the result is 50.
\<close>

theorem getNextTimer_spec_witness:
  "timers_ordered
     (snd (addTimer 0 200 (Some (UserFn 2)) False
        (snd (addTimer 0 100 (Some (UserFn 1)) False (TimerManager_ctor 0))))) \<and>
   m_timers
     (snd (addTimer 0 200 (Some (UserFn 2)) False
        (snd (addTimer 0 100 (Some (UserFn 1)) False (TimerManager_ctor 0))))) = [0, 1] \<and>
   fst (getNextTimer 50000000
     (snd (addTimer 0 200 (Some (UserFn 2)) False
        (snd (addTimer 0 100 (Some (UserFn 1)) False (TimerManager_ctor 0)))))) = 50"
proof -
  let ?tm = "snd (addTimer 0 200 (Some (UserFn 2)) False
        (snd (addTimer 0 100 (Some (UserFn 1)) False (TimerManager_ctor 0))))"
  have ord: "timers_ordered ?tm" by (simp add: timers_ordered_def timer_defs)
  have near: "\<forall>t \<in> set (m_timers ?tm). m_next (timer_objs ?tm t) - 50000000 < 2 ^ 63"
    by (simp add: timer_defs)
  have ts: "m_timers ?tm = [0, 1]" by (simp add: timer_defs)
  have far: "\<forall>t \<in> set (m_timers ?tm). 1000000 \<le> m_next (timer_objs ?tm t) - 50000000"
    by (simp add: timer_defs)
  from getNextTimer_spec [OF ord near] ts far
  obtain t where t: "t \<in> set (m_timers ?tm)"
      "\<forall>u \<in> set (m_timers ?tm). m_next (timer_objs ?tm t) \<le> m_next (timer_objs ?tm u)"
      "uint (fst (getNextTimer 50000000 ?tm)) = (m_next (timer_objs ?tm t) - 50000000) div 1000000"
    by auto
  have "t = 0" using t(1,2) by (auto simp add: timer_defs)
  with t(3) have "uint (fst (getNextTimer 50000000 ?tm)) = 50" by (simp add: timer_defs)
  then have "fst (getNextTimer 50000000 ?tm) = 50"
    by (simp add: word_uint_eq_iff)
  with ord ts show ?thesis by simp
qed

text \<open>
  Beyond that distance the subtraction wraps: with the clock at its least value and a
  deadline at the greatest one, \<open>getNextTimer\<close> returns 0 for a timer that is not due; and
  a period of 9223372036855 ms added at time 0 gives a deadline in the past.
\<close>

lemma getNextTimer_far_deadline_wraps:
  "fst (getNextTimer (- (2 ^ 63))
          ((TimerManager_ctor 0)
             \<lparr>timer_objs := (\<lambda>_. \<lparr>m_recurring = False, m_ms = 0, m_next = 2 ^ 63 - 1,
                                   m_cb = Some (UserFn 1)\<rparr>),
              m_timers := [0]\<rparr>)) = 0 \<and>
   m_next (timer_objs (snd (addTimer 0 9223372036855 (Some (UserFn 1)) False
                              (TimerManager_ctor 0))) 0) < 0"
  by (simp add: getNextTimer_def TimerManager_ctor_def addTimer_def addTimer_handle_def
      Timer_ctor_def milliseconds_def int64_def div_trunc_def Let_def)

section \<open>IOManager: events bitset and event slots\<close>

lemma bits32:
  "((e::32 word) OR 1) AND 1 \<noteq> 0"
  "((e::32 word) OR 4) AND 4 \<noteq> 0"
  "((e::32 word) OR 1) AND 4 = e AND 4"
  "((e::32 word) OR 4) AND 1 = e AND 1"
  "((e::32 word) AND NOT 1) AND 1 = 0"
  "((e::32 word) AND NOT 4) AND 4 = 0"
  "((e::32 word) AND NOT 1) AND 4 = e AND 4"
  "((e::32 word) AND NOT 4) AND 1 = e AND 1"
  "((e::32 word) AND - 2) AND 1 = 0"
  "((e::32 word) AND - 5) AND 4 = 0"
  "((e::32 word) AND - 2) AND 4 = e AND 4"
  "((e::32 word) AND - 5) AND 1 = e AND 1"
  by (simp_all add: bit.conj_disj_distrib2 and.assoc)

lemma events_match_new [simp]: "events_match (new_FdContext i)"
  by (simp add: events_match_def new_FdContext_def populated_def)

lemma ctxs_match_contextResize: "ctxs_match iom \<Longrightarrow> ctxs_match (contextResize n iom)"
  by (auto simp add: ctxs_match_def contextResize_def dest: in_set_takeD)

lemma ctxs_match_put:
  "ctxs_match iom \<Longrightarrow> events_match c \<Longrightarrow> ctxs_match (put_fd_ctx i c iom)"
  by (auto simp add: ctxs_match_def put_fd_ctx_def dest: set_update_subset_insert [THEN subsetD])

lemma ctxs_match_nth:
  "ctxs_match iom \<Longrightarrow> i < length (m_fdContexts iom) \<Longrightarrow> events_match (m_fdContexts iom ! i)"
  by (simp add: ctxs_match_def)

lemma ctxs_match_fields [simp]:
  "ctxs_match (iom\<lparr>m_pendingEventCount := n\<rparr>) = ctxs_match iom"
  "ctxs_match (iom\<lparr>m_tasks := q\<rparr>) = ctxs_match iom"
  "ctxs_match (iom\<lparr>epoll_ctl_calls := l\<rparr>) = ctxs_match iom"
  "ctxs_match (epoll_ctl op' f e r iom) = ctxs_match iom"
  by (simp_all add: ctxs_match_def epoll_ctl_def)

lemma events_match_arm:
  assumes "events_match c" "ev \<noteq> NONE" "populated ec"
  shows "events_match (putEventContext ev ec (c\<lparr>events := events c OR Event_val ev\<rparr>))"
  using assms by (cases ev) (simp_all add: events_match_def bits32)

lemma events_match_disarm:
  assumes "events_match c" "ev \<noteq> NONE"
  shows "events_match (putEventContext ev (resetEventContext ec)
            (c\<lparr>events := events c AND NOT (Event_val ev)\<rparr>))"
  using assms by (cases ev) (simp_all add: events_match_def bits32 resetEventContext_def populated_def)

lemma events_match_disarm_eq:
  assumes "events_match c" "ev \<noteq> NONE" "e' = events c AND NOT (Event_val ev)"
  shows "events_match (putEventContext ev (resetEventContext ec) (c\<lparr>events := e'\<rparr>))"
  using assms events_match_disarm by simp

lemma triggerEvent_match:
  assumes "events_match c" "triggerEvent ev (c, q) = Inr (c', q')"
  shows "events_match c'"
proof (cases ev)
  case NONE
  with assms show ?thesis by (simp add: triggerEvent_def)
next
  case READ
  with assms(2) have "c' = putEventContext ev (resetEventContext (read c))
            (c\<lparr>events := events c AND NOT (Event_val ev)\<rparr>)"
    by (auto simp add: triggerEvent_def Let_def split: if_splits option.splits)
  with assms(1) READ show ?thesis using events_match_disarm [of c ev "read c"] by simp
next
  case WRITE
  with assms(2) have "c' = putEventContext ev (resetEventContext (write' c))
            (c\<lparr>events := events c AND NOT (Event_val ev)\<rparr>)"
    by (auto simp add: triggerEvent_def Let_def split: if_splits option.splits)
  with assms(1) WRITE show ?thesis using events_match_disarm [of c ev "write' c"] by simp
qed

lemma addEvent_match:
  assumes "ctxs_match iom" "t_scheduler env \<noteq> None"
    and "addEvent env rt fdi ev cbk iom = Inr (r, iom')"
  shows "ctxs_match iom'"
proof -
  define iom1 where "iom1 = (if int (length (m_fdContexts iom)) > fdi then iom
                  else contextResize (nat (3 * fdi div 2)) iom)"
  have m1: "ctxs_match iom1"
    using assms(1) by (simp add: iom1_def ctxs_match_contextResize)
  from assms(3) have rng: "nat fdi < length (m_fdContexts iom1)"
    by (auto simp add: addEvent_def iom1_def Let_def split: if_splits)
  define c where "c = m_fdContexts iom1 ! nat fdi"
  have mc: "events_match c" using m1 rng by (simp add: c_def ctxs_match_nth)
  show ?thesis
  proof (cases "ev = NONE")
    case True
    with assms(3) m1 show ?thesis
      by (auto simp add: addEvent_def Let_def iom1_def [symmetric] split: if_splits)
  next
    case False
    have arm: "\<And>ec. populated ec \<Longrightarrow>
       ctxs_match (put_fd_ctx (nat fdi) (putEventContext ev ec (c\<lparr>events := events c OR Event_val ev\<rparr>)) iom1)"
      using m1 mc False by (simp add: ctxs_match_put events_match_arm)
    from assms(2,3) False m1 mc show ?thesis
      by (cases ev)
         (auto simp add: addEvent_def Let_def iom1_def [symmetric] c_def [symmetric]
             events_match_def populated_def bits32
           split: if_splits option.splits intro!: ctxs_match_put)
  qed
qed


lemma map_sum_id_Inr:
  "(map_sum id f x = Inr y) = (\<exists>z. x = Inr z \<and> y = f z)"
  by (cases x) auto

lemma delEvent_match:
  assumes "ctxs_match iom" "delEvent rt fdi ev iom = Inr (r, iom')"
  shows "ctxs_match iom'"
proof (cases "int (length (m_fdContexts iom)) > fdi \<and> 0 \<le> fdi \<and> ev \<noteq> NONE")
  case False
  with assms show ?thesis by (auto simp add: delEvent_def split: if_splits)
next
  case True
  then have "nat fdi < length (m_fdContexts iom)" by linarith
  then have "events_match (m_fdContexts iom ! nat fdi)"
    using assms(1) by (rule ctxs_match_nth [rotated])
  with assms True show ?thesis
    by (auto simp add: delEvent_def Let_def
        split: if_splits sum.splits intro!: ctxs_match_put events_match_disarm_eq)
qed

lemma cancelEvent_match:
  assumes "ctxs_match iom" "cancelEvent rt fdi ev iom = Inr (r, iom')"
  shows "ctxs_match iom'"
proof (cases "int (length (m_fdContexts iom)) > fdi \<and> 0 \<le> fdi")
  case False
  with assms show ?thesis by (auto simp add: cancelEvent_def split: if_splits)
next
  case True
  then have "nat fdi < length (m_fdContexts iom)" by linarith
  then have "events_match (m_fdContexts iom ! nat fdi)"
    using assms(1) by (rule ctxs_match_nth [rotated])
  with assms True show ?thesis
    by (auto simp add: cancelEvent_def Let_def
        split: if_splits sum.splits intro!: ctxs_match_put dest: triggerEvent_match [rotated])
qed

lemma opt_trigger_match:
  assumes "events_match c"
    and "(if P then map_sum id (\<lambda>cq. (cq, m)) (triggerEvent ev (c, q)) else Inr ((c, q), n)) =
         Inr ((c', q'), n')"
  shows "events_match c'"
proof (cases P)
  case True
  with assms(2) have "triggerEvent ev (c, q) = Inr (c', q')"
    by (auto simp add: map_sum_id_Inr)
  with assms(1) show ?thesis by (rule triggerEvent_match)
next
  case False
  with assms show ?thesis by simp
qed

lemma cancelAll_match:
  assumes "ctxs_match iom" "cancelAll rt fdi iom = Inr (r, iom')"
  shows "ctxs_match iom'"
proof (cases "int (length (m_fdContexts iom)) > fdi \<and> 0 \<le> fdi")
  case False
  with assms show ?thesis by (auto simp add: cancelAll_def split: if_splits)
next
  case True
  then have "nat fdi < length (m_fdContexts iom)" by linarith
  then have mc: "events_match (m_fdContexts iom ! nat fdi)"
    using assms(1) by (rule ctxs_match_nth [rotated])
  show ?thesis
  proof (cases "events (m_fdContexts iom ! nat fdi) = 0 \<or> rt \<noteq> 0")
    case True
    with assms \<open>int (length (m_fdContexts iom)) > fdi \<and> 0 \<le> fdi\<close> show ?thesis
      by (auto simp add: cancelAll_def Let_def split: if_splits)
  next
    case False
    let ?c = "m_fdContexts iom ! nat fdi"
    let ?iom1 = "epoll_ctl EPOLL_CTL_DEL fdi 0 rt iom"
    from assms(2) False \<open>int (length (m_fdContexts iom)) > fdi \<and> 0 \<le> fdi\<close>
    obtain c1 q1 n1 c2 q2 n2 where
      s1: "(if events ?c AND Event_val READ \<noteq> 0
            then map_sum id (\<lambda>cq. (cq, m_pendingEventCount ?iom1 - 1))
                   (triggerEvent READ (?c, m_tasks ?iom1))
            else Inr ((?c, m_tasks ?iom1), m_pendingEventCount ?iom1)) = Inr ((c1, q1), n1)"
      and s2: "(if events c1 AND Event_val WRITE \<noteq> 0
                then map_sum id (\<lambda>cq. (cq, n1 - 1)) (triggerEvent WRITE (c1, q1))
                else Inr ((c1, q1), n1)) = Inr ((c2, q2), n2)"
      and res: "iom' = put_fd_ctx (nat fdi) c2 (?iom1\<lparr>m_tasks := q2, m_pendingEventCount := n2\<rparr>)"
      unfolding cancelAll_def Let_def
      by (simp split: sum.splits prod.splits if_splits)
    from opt_trigger_match [OF mc s1] have "events_match c1" .
    from opt_trigger_match [OF this s2] have "events_match c2" .
    with res assms(1) show ?thesis by (simp add: ctxs_match_put)
  qed
qed


lemma ctxs_match_ctor: "ctxs_match (IOManager_ctor now tfd)"
  by (auto simp add: ctxs_match_def IOManager_ctor_def contextResize_def)

lemma addEvent_success_armed:
  assumes "addEvent env rt fdi ev cbk iom = Inr (0, iom1)"
  shows "armed fdi ev iom1"
proof -
  define iom0 where "iom0 = (if int (length (m_fdContexts iom)) > fdi then iom
                  else contextResize (nat (3 * fdi div 2)) iom)"
  from assms have rng: "0 \<le> fdi" "nat fdi < length (m_fdContexts iom0)"
    by (auto simp add: addEvent_def iom0_def Let_def split: if_splits)
  from assms rng show ?thesis
    by (cases ev)
       (auto simp add: addEvent_def Let_def iom0_def [symmetric] armed_def put_fd_ctx_def
          epoll_ctl_def bits32
        split: if_splits option.splits)
qed




lemma word_or_and_not_cancel:
  "(e :: 32 word) AND v = 0 \<Longrightarrow> (e OR v) AND NOT v = e"
  by (auto simp add: bit_eq_iff bit_simps)

lemma delEvent_not_armed:
  assumes "\<not> armed fdi ev iom" "0 \<le> fdi"
  shows "delEvent rt fdi ev iom = Inr (False, iom)"
proof (cases "fdi < int (length (m_fdContexts iom))")
  case False
  then show ?thesis by (simp add: delEvent_def)
next
  case True
  with assms have "events (m_fdContexts iom ! nat fdi) AND Event_val ev = 0"
    by (auto simp add: armed_def)
  with True assms(2) show ?thesis by (simp add: delEvent_def Let_def)
qed

lemma delEvent_armed:
  assumes "armed fdi ev iom"
  shows "\<exists>iom'. delEvent 0 fdi ev iom = Inr (True, iom') \<and>
           length (m_fdContexts iom') = length (m_fdContexts iom) \<and>
           getEventContext ev (m_fdContexts iom' ! nat fdi) =
             Inr \<lparr>scheduler = None, fiber = None, cb = None\<rparr> \<and>
           events (m_fdContexts iom' ! nat fdi) =
             events (m_fdContexts iom ! nat fdi) AND NOT (Event_val ev) \<and>
           (\<forall>j. j \<noteq> nat fdi \<longrightarrow> m_fdContexts iom' ! j = m_fdContexts iom ! j) \<and>
           m_pendingEventCount iom' = m_pendingEventCount iom - 1 \<and>
           m_tasks iom' = m_tasks iom \<and>
           tmgr iom' = tmgr iom"
proof -
  from assms have rng: "fdi < int (length (m_fdContexts iom))" "\<not> fdi < 0"
      "nat fdi < length (m_fdContexts iom)"
    and bit: "events (m_fdContexts iom ! nat fdi) AND Event_val ev \<noteq> 0"
    by (auto simp add: armed_def)
  from bit have "ev \<noteq> NONE" by (cases ev) auto
  with rng bit show ?thesis
    by (cases ev)
       (simp_all add: delEvent_def Let_def put_fd_ctx_def epoll_ctl_def resetEventContext_def)
qed


lemma addEvent_success_events:
  assumes "addEvent env rt fdi ev cbk iom = Inr (0, iom1)"
  shows "events (m_fdContexts iom1 ! nat fdi) =
           (if nat fdi < length (m_fdContexts iom) then events (m_fdContexts iom ! nat fdi) else 0)
           OR Event_val ev \<and>
         (if nat fdi < length (m_fdContexts iom) then events (m_fdContexts iom ! nat fdi) else 0)
           AND Event_val ev = 0"
proof -
  define iom0 where "iom0 = (if int (length (m_fdContexts iom)) > fdi then iom
                  else contextResize (nat (3 * fdi div 2)) iom)"
  from assms have rng: "0 \<le> fdi" "nat fdi < length (m_fdContexts iom0)"
    by (auto simp add: addEvent_def iom0_def Let_def split: if_splits)
  have old: "events (m_fdContexts iom0 ! nat fdi) =
      (if nat fdi < length (m_fdContexts iom) then events (m_fdContexts iom ! nat fdi) else 0)"
    using rng
    by (auto simp add: iom0_def contextResize_def nth_append new_FdContext_def)
  from assms rng have "events (m_fdContexts iom1 ! nat fdi) =
        events (m_fdContexts iom0 ! nat fdi) OR Event_val ev \<and>
        events (m_fdContexts iom0 ! nat fdi) AND Event_val ev = 0"
    by (cases ev)
       (auto simp add: addEvent_def Let_def iom0_def [symmetric] put_fd_ctx_def
          epoll_ctl_def
        split: if_splits option.splits)
  with old show ?thesis by simp
qed

text \<open>
  \<open>delEvent\<close> on the paths where the update of the facility registration succeeds when it
  is attempted (\<^verbatim>\<open>epoll_ctl\<close> returns 0): \<open>delEvent fd E\<close> returns true if and only if \<open>E\<close>
  was armed on \<open>fd\<close>; when it returns true it clears the slot of \<open>E\<close> and the bit of \<open>E\<close>,
  pushes no task (the stored fiber or callable is not invoked), leaves the other contexts
  alone and decrements the pending-event counter, so that a successful \<open>addEvent fd E\<close>
  followed by \<open>delEvent fd E\<close> restores the bitset of \<open>fd\<close> to its value before the
  \<open>addEvent\<close>; when the event was not armed it returns false and changes nothing.
\<close>

lemma delEvent_spec:
  "0 \<le> fdi \<Longrightarrow>
   (armed fdi ev iom \<longrightarrow>
      (\<exists>iom'. delEvent 0 fdi ev iom = Inr (True, iom') \<and>
           length (m_fdContexts iom') = length (m_fdContexts iom) \<and>
           getEventContext ev (m_fdContexts iom' ! nat fdi) =
             Inr \<lparr>scheduler = None, fiber = None, cb = None\<rparr> \<and>
           events (m_fdContexts iom' ! nat fdi) =
             events (m_fdContexts iom ! nat fdi) AND NOT (Event_val ev) \<and>
           (\<forall>j. j \<noteq> nat fdi \<longrightarrow> m_fdContexts iom' ! j = m_fdContexts iom ! j) \<and>
           m_pendingEventCount iom' = m_pendingEventCount iom - 1 \<and>
           m_tasks iom' = m_tasks iom \<and>
           tmgr iom' = tmgr iom)) \<and>
   (\<not> armed fdi ev iom \<longrightarrow> delEvent 0 fdi ev iom = Inr (False, iom)) \<and>
   (\<forall>env cbk iom1.
      addEvent env 0 fdi ev cbk iom = Inr (0, iom1) \<longrightarrow>
      (\<exists>iom2. delEvent 0 fdi ev iom1 = Inr (True, iom2) \<and>
         events (m_fdContexts iom2 ! nat fdi) =
           (if nat fdi < length (m_fdContexts iom)
            then events (m_fdContexts iom ! nat fdi) else 0)))"
proof (intro conjI impI allI)
  assume "armed fdi ev iom"
  then show "\<exists>iom'. delEvent 0 fdi ev iom = Inr (True, iom') \<and>
           length (m_fdContexts iom') = length (m_fdContexts iom) \<and>
           getEventContext ev (m_fdContexts iom' ! nat fdi) =
             Inr \<lparr>scheduler = None, fiber = None, cb = None\<rparr> \<and>
           events (m_fdContexts iom' ! nat fdi) =
             events (m_fdContexts iom ! nat fdi) AND NOT (Event_val ev) \<and>
           (\<forall>j. j \<noteq> nat fdi \<longrightarrow> m_fdContexts iom' ! j = m_fdContexts iom ! j) \<and>
           m_pendingEventCount iom' = m_pendingEventCount iom - 1 \<and>
           m_tasks iom' = m_tasks iom \<and>
           tmgr iom' = tmgr iom"
    by (rule delEvent_armed)
next
  assume "0 \<le> fdi" "\<not> armed fdi ev iom"
  then show "delEvent 0 fdi ev iom = Inr (False, iom)"
    by (simp add: delEvent_not_armed)
next
  fix env cbk iom1
  assume add: "addEvent env 0 fdi ev cbk iom = Inr (0, iom1)"
  let ?old = "if nat fdi < length (m_fdContexts iom)
              then events (m_fdContexts iom ! nat fdi) else 0"
  from addEvent_success_armed [OF add] delEvent_armed [of fdi ev iom1]
  obtain iom2 where del: "delEvent 0 fdi ev iom1 = Inr (True, iom2)"
    and ev2: "events (m_fdContexts iom2 ! nat fdi) =
              events (m_fdContexts iom1 ! nat fdi) AND NOT (Event_val ev)"
    by blast
  from addEvent_success_events [OF add]
  have "events (m_fdContexts iom1 ! nat fdi) = ?old OR Event_val ev" "?old AND Event_val ev = 0"
    by simp_all
  with ev2 have "events (m_fdContexts iom2 ! nat fdi) = ?old"
    by (simp add: word_or_and_not_cancel)
  with del show "\<exists>iom2. delEvent 0 fdi ev iom1 = Inr (True, iom2) \<and>
         events (m_fdContexts iom2 ! nat fdi) = ?old"
    by blast
qed


lemmas io_eval_defs =
  addEvent_def delEvent_def small_iom_def env0_def armed_iom_def Let_def new_FdContext_def
  put_fd_ctx_def epoll_ctl_def EPOLLET_def armed_def populated_def resetEventContext_def

text \<open>
  Claim C8 at a failing input: \<open>READ\<close> is armed on descriptor 0 and the \<^verbatim>\<open>epoll_ctl\<close> call of
  \<open>delEvent\<close> fails. The function reports the failure and executes \<^verbatim>\<open>return -1;\<close>, which in
  a function returning \<^verbatim>\<open>bool\<close> is \<open>True\<close>: the caller is told that the event was removed,
  but the slot is still populated, the event is still armed and the pending-event counter
  is not decremented.
\<close>

theorem delEvent_true_without_clearing:
  "armed 0 READ armed_iom \<and>
   fst (projr (delEvent (- 1) 0 READ armed_iom)) = True \<and>
   read (m_fdContexts (snd (projr (delEvent (- 1) 0 READ armed_iom))) ! 0) =
     \<lparr>scheduler = Some 0, fiber = None, cb = Some (UserFn 1)\<rparr> \<and>
   armed 0 READ (snd (projr (delEvent (- 1) 0 READ armed_iom))) \<and>
   m_pendingEventCount (snd (projr (delEvent (- 1) 0 READ armed_iom))) = 1 \<and>
   m_pendingEventCount armed_iom = 1 \<and>
   epoll_ctl_calls (snd (projr (delEvent (- 1) 0 READ armed_iom))) =
     epoll_ctl_calls armed_iom @ [(EPOLL_CTL_DEL, 0, EPOLLET, - 1)]"
  by (simp add: io_eval_defs)

text \<open>
  With \<^verbatim>\<open>epoll_ctl\<close> succeeding on the same state, where \<open>READ\<close> is armed and \<open>WRITE\<close> is
  not: deleting \<open>READ\<close> returns true, empties the slot, brings the counter back to 0 and
  the bitset back to what it was before the \<open>addEvent\<close>; deleting \<open>WRITE\<close> returns false.
\<close>

lemma delEvent_spec_example:
  "(0 :: int) \<le> 0 \<and> armed 0 READ armed_iom \<and>
   fst (projr (delEvent 0 0 READ armed_iom)) = True \<and>
   \<not> populated (read (m_fdContexts (snd (projr (delEvent 0 0 READ armed_iom))) ! 0)) \<and>
   m_pendingEventCount (snd (projr (delEvent 0 0 READ armed_iom))) = 0 \<and>
   \<not> armed 0 WRITE armed_iom \<and>
   delEvent 0 0 WRITE armed_iom = Inr (False, armed_iom) \<and>
   events (m_fdContexts (snd (projr (delEvent 0 0 READ armed_iom))) ! 0) =
     events (m_fdContexts small_iom ! 0)"
proof -
  have a: "armed 0 READ armed_iom" by (simp add: io_eval_defs)
  have b: "\<not> armed 0 WRITE armed_iom" by (simp add: io_eval_defs)
  have c: "m_pendingEventCount armed_iom = 1" by (simp add: io_eval_defs)
  have d: "addEvent env0 0 0 READ (Some (UserFn 1)) small_iom = Inr (0, armed_iom)"
    by (simp add: io_eval_defs)
  from delEvent_spec [of 0 READ armed_iom] a
  obtain iom' where r: "delEvent 0 0 READ armed_iom = Inr (True, iom')"
    and s: "getEventContext READ (m_fdContexts iom' ! nat 0) =
             Inr \<lparr>scheduler = None, fiber = None, cb = None\<rparr>"
    and n: "m_pendingEventCount iom' = m_pendingEventCount armed_iom - 1"
    by auto
  from delEvent_spec [of 0 WRITE armed_iom] b
  have w: "delEvent 0 0 WRITE armed_iom = Inr (False, armed_iom)" by simp
  have "\<exists>iom2. delEvent 0 0 READ armed_iom = Inr (True, iom2) \<and>
         events (m_fdContexts iom2 ! nat 0) =
           (if nat 0 < length (m_fdContexts small_iom)
            then events (m_fdContexts small_iom ! nat 0) else 0)"
    using delEvent_spec [of 0 READ small_iom] d by blast
  with r have e: "events (m_fdContexts iom' ! 0) = events (m_fdContexts small_iom ! 0)"
    by (simp add: small_iom_def)
  from r s n c e a b w show ?thesis by (simp add: populated_def)
qed


text \<open>
  Claim C6, as stated, fails: \<open>addEvent\<close> called with a callable on a thread that has no
  current scheduler (\<^verbatim>\<open>Scheduler::GetThis()\<close> is null) completes with 0 and sets the
  \<open>READ\<close> bit, but the slot holds no scheduler, so it is not populated.
\<close>

theorem addEvent_without_scheduler_unpopulated:
  "fst (projr (addEvent foreign_env 0 0 READ (Some (UserFn 1)) small_iom)) = 0 \<and>
   events (m_fdContexts
             (snd (projr (addEvent foreign_env 0 0 READ (Some (UserFn 1)) small_iom))) ! 0)
     AND Event_val READ \<noteq> 0 \<and>
   \<not> populated (read (m_fdContexts
             (snd (projr (addEvent foreign_env 0 0 READ (Some (UserFn 1)) small_iom))) ! 0))"
  by (simp add: io_eval_defs foreign_env_def)

text \<open>
  Claim C6, amended: the contexts of a new \<^verbatim>\<open>IOManager\<close> have their bitsets matching
  their slots, and from a state where every context does, every completed \<open>addEvent\<close>
  made on a thread that has a current scheduler, and every completed \<open>delEvent\<close>,
  \<open>cancelEvent\<close>, \<open>cancelAll\<close> and \<open>triggerEvent\<close>, leads to a state where every
  context does: the \<open>READ\<close> bit is set if and only if the read slot is populated, and the
  \<open>WRITE\<close> bit is set if and only if the write slot is populated.
\<close>

theorem events_bitset_matches_slots:
  "ctxs_match (IOManager_ctor now tfd) \<and>
   (ctxs_match iom \<longrightarrow>
      (\<forall>env rt fdi ev cbk r iom'.
          t_scheduler env \<noteq> None \<longrightarrow>
          addEvent env rt fdi ev cbk iom = Inr (r, iom') \<longrightarrow> ctxs_match iom') \<and>
      (\<forall>rt fdi ev r iom'. delEvent rt fdi ev iom = Inr (r, iom') \<longrightarrow> ctxs_match iom') \<and>
      (\<forall>rt fdi ev r iom'. cancelEvent rt fdi ev iom = Inr (r, iom') \<longrightarrow> ctxs_match iom') \<and>
      (\<forall>rt fdi r iom'. cancelAll rt fdi iom = Inr (r, iom') \<longrightarrow> ctxs_match iom') \<and>
      (\<forall>c ev q c' q'.
          c \<in> set (m_fdContexts iom) \<longrightarrow>
          triggerEvent ev (c, q) = Inr (c', q') \<longrightarrow> events_match c'))"
proof (intro conjI impI allI)
  show "ctxs_match (IOManager_ctor now tfd)" by (rule ctxs_match_ctor)
next
  fix env rt fdi ev cbk r iom'
  assume "ctxs_match iom" "t_scheduler env \<noteq> None"
    "addEvent env rt fdi ev cbk iom = Inr (r, iom')"
  then show "ctxs_match iom'" by (rule addEvent_match)
next
  fix rt fdi ev r iom'
  assume "ctxs_match iom" "delEvent rt fdi ev iom = Inr (r, iom')"
  then show "ctxs_match iom'" by (rule delEvent_match)
next
  fix rt fdi ev r iom'
  assume "ctxs_match iom" "cancelEvent rt fdi ev iom = Inr (r, iom')"
  then show "ctxs_match iom'" by (rule cancelEvent_match)
next
  fix rt fdi r iom'
  assume "ctxs_match iom" "cancelAll rt fdi iom = Inr (r, iom')"
  then show "ctxs_match iom'" by (rule cancelAll_match)
next
  fix c ev q c' q'
  assume "ctxs_match iom" "c \<in> set (m_fdContexts iom)"
    "triggerEvent ev (c, q) = Inr (c', q')"
  then show "events_match c'"
    using triggerEvent_match by (auto simp add: ctxs_match_def)
qed

text \<open>
  Claim C6, witness: arming \<open>READ\<close> on descriptor 0 from a worker thread, then
  cancelling it; the bitset and the slots agree after each step.
\<close>

theorem events_bitset_matches_slots_witness:
  "ctxs_match small_iom \<and> t_scheduler env0 \<noteq> None \<and>
   addEvent env0 0 0 READ (Some (UserFn 1)) small_iom = Inr (0, armed_iom) \<and>
   ctxs_match armed_iom \<and>
   events (m_fdContexts armed_iom ! 0) = 1 \<and>
   populated (read (m_fdContexts armed_iom ! 0)) \<and>
   \<not> populated (write' (m_fdContexts armed_iom ! 0)) \<and>
   cancelEvent 0 0 READ armed_iom =
     Inr (True, snd (projr (cancelEvent 0 0 READ armed_iom))) \<and>
   ctxs_match (snd (projr (cancelEvent 0 0 READ armed_iom))) \<and>
   events (m_fdContexts (snd (projr (cancelEvent 0 0 READ armed_iom))) ! 0) = 0"
proof -
  have m0: "ctxs_match small_iom" by (simp add: ctxs_match_def small_iom_def)
  have sch: "t_scheduler env0 \<noteq> None" by (simp add: env0_def)
  have add: "addEvent env0 0 0 READ (Some (UserFn 1)) small_iom = Inr (0, armed_iom)"
    by (simp add: io_eval_defs)
  from events_bitset_matches_slots [of 0 3 small_iom] m0
  have "\<forall>env rt fdi ev cbk r iom'.
          t_scheduler env \<noteq> None \<longrightarrow>
          addEvent env rt fdi ev cbk small_iom = Inr (r, iom') \<longrightarrow> ctxs_match iom'"
    by simp
  from this [rule_format, OF sch add] have m1: "ctxs_match armed_iom" .
  have can: "cancelEvent 0 0 READ armed_iom =
     Inr (True, snd (projr (cancelEvent 0 0 READ armed_iom)))"
    by (simp add: io_eval_defs cancelEvent_def triggerEvent_def scheduleLock_def)
  from events_bitset_matches_slots [of 0 3 armed_iom] m1
  have "\<forall>rt fdi ev r iom'.
          cancelEvent rt fdi ev armed_iom = Inr (r, iom') \<longrightarrow> ctxs_match iom'"
    by simp
  from this [rule_format, OF can]
  have m2: "ctxs_match (snd (projr (cancelEvent 0 0 READ armed_iom)))" .
  have vals: "events (m_fdContexts armed_iom ! 0) = 1"
    "populated (read (m_fdContexts armed_iom ! 0))"
    "\<not> populated (write' (m_fdContexts armed_iom ! 0))"
    "events (m_fdContexts (snd (projr (cancelEvent 0 0 READ armed_iom))) ! 0) = 0"
    by (simp_all add: io_eval_defs cancelEvent_def triggerEvent_def scheduleLock_def)
  from m0 sch add m1 can m2 vals show ?thesis by simp
qed


section \<open>Interposed system calls\<close>

lemma FdCtx_made_not_closed: "FdCtx_made c \<Longrightarrow> \<not> m_isClosed c"
  by (induction rule: FdCtx_made.induct) (simp_all add: FdCtx_ctor_def Let_def setTimeout_def)

lemma FdMgr_get_raw [simp]: "FdMgr_get fdi (raw call r w) = FdMgr_get fdi w"
  by (simp add: FdMgr_get_def raw_def)

lemma do_io_disabled:
  "\<not> t_hook_enable w \<Longrightarrow>
   do_io (a # as) fdi fn ev so w = Some (Inr (sr_ret (a_ret a), raw (io_call fn fdi) (a_ret a) w))"
  by (simp add: do_io_def)

lemma do_io_passthrough:
  assumes "FdMgr_get fdi w = None \<or>
           (\<exists>c. FdMgr_get fdi w = Some c \<and> FdCtx_made c \<and> (\<not> m_isSocket c \<or> m_userNonblock c))"
  shows "do_io (a # as) fdi fn ev so w =
           Some (Inr (sr_ret (a_ret a), raw (io_call fn fdi) (a_ret a) w))"
  using assms by (auto simp add: do_io_def Let_def dest: FdCtx_made_not_closed)

lemmas fcntl_cmd_defs =
  int_arg_cmds_def no_arg_cmds_def ptr_arg_cmds_def
  F_DUPFD_def F_GETFD_def F_SETFD_def F_GETFL_def F_SETFL_def F_GETLK_def F_SETLK_def
  F_SETLKW_def F_SETOWN_def F_GETOWN_def F_SETSIG_def F_GETSIG_def F_SETOWN_EX_def
  F_GETOWN_EX_def F_SETLEASE_def F_GETLEASE_def F_NOTIFY_def F_DUPFD_CLOEXEC_def
  F_SETPIPE_SZ_def F_GETPIPE_SZ_def

lemma fcntl_int_arg_cmd:
  "cmd \<in> set int_arg_cmds \<Longrightarrow>
   fcntl r fdi cmd (int_arg x) w = Inr (sr_ret r, raw (fcntl_call fdi cmd (int_arg x)) r w)"
  by (auto simp add: fcntl_def fcntl_cmd_defs)

lemma fcntl_no_arg_cmd:
  "cmd \<in> set no_arg_cmds \<Longrightarrow>
   fcntl r fdi cmd va w = Inr (sr_ret r, raw (fcntl_call fdi cmd no_arg) r w)"
  by (auto simp add: fcntl_def fcntl_cmd_defs)

lemma fcntl_ptr_arg_cmd:
  "cmd \<in> set ptr_arg_cmds \<Longrightarrow>
   fcntl r fdi cmd (ptr_arg p) w = Inr (sr_ret r, raw (fcntl_call fdi cmd (ptr_arg p)) r w)"
  by (auto simp add: fcntl_def fcntl_cmd_defs)

lemma fcntl_other_cmd:
  "cmd \<noteq> F_SETFL \<Longrightarrow> cmd \<noteq> F_GETFL \<Longrightarrow>
   cmd \<notin> set int_arg_cmds \<Longrightarrow> cmd \<notin> set no_arg_cmds \<Longrightarrow> cmd \<notin> set ptr_arg_cmds \<Longrightarrow>
   fcntl r fdi cmd va w = Inr (sr_ret r, raw (fcntl_call fdi cmd no_arg) r w)"
  by (simp add: fcntl_def)

text \<open>
  Claim C2, amended: when the thread-local hook flag is false, \<open>do_io\<close> (and with it the
  read and write wrappers), \<open>sleep\<close>, \<open>usleep\<close>, \<open>nanosleep\<close>, \<open>connect\<close> and \<open>setsockopt\<close>
  return exactly what the original system call returns, and the state afterwards is the
  state after that one call. With the flag true, \<open>do_io\<close> still passes through whenever
  no \<^verbatim>\<open>FdCtx\<close> exists for the descriptor, the descriptor is not a socket, or the user set
  non-blocking. \<open>fcntl\<close> and \<open>ioctl\<close> do not read the flag. Whatever its value, \<^verbatim>\<open>F_SETFL\<close>,
  \<^verbatim>\<open>F_GETFL\<close> and \<^verbatim>\<open>FIONBIO\<close> (with a readable argument) pass through when no \<^verbatim>\<open>FdCtx\<close> exists
  or the descriptor is not a socket; the commands that the \<^verbatim>\<open>switch\<close> of \<open>fcntl\<close> lists pass
  through with the argument of the type they take; a command that it does not list is
  handed to the original function without its argument; and every \<open>ioctl\<close> request other
  than \<^verbatim>\<open>FIONBIO\<close> passes through.
\<close>

theorem hook_disabled_passthrough:
  "(\<not> t_hook_enable w \<longrightarrow>
      do_io (a # as) fdi fn ev so w =
        Some (Inr (sr_ret (a_ret a), raw (io_call fn fdi) (a_ret a) w)) \<and>
      hooked_io (a # as) fn fdi w =
        Some (Inr (sr_ret (a_ret a), raw (io_call fn fdi) (a_ret a) w)) \<and>
      sleep a seconds w = Inr (sr_ret (a_ret a), raw (sleep_call seconds) (a_ret a) w) \<and>
      usleep a usec w = Inr (sr_ret (a_ret a), raw (usleep_call usec) (a_ret a) w) \<and>
      nanosleep a tv_sec tv_nsec w =
        Inr (sr_ret (a_ret a), raw (nanosleep_call tv_sec tv_nsec) (a_ret a) w) \<and>
      connect a rg fdi w = Inr (sr_ret (a_ret a), raw (connect_call fdi) (a_ret a) w) \<and>
      setsockopt r fdi level optname tv_sec tv_usec w =
        (sr_ret r, raw (setsockopt_call fdi level optname tv_sec tv_usec) r w)) \<and>
   (FdMgr_get fdi w = None \<or>
    (\<exists>c. FdMgr_get fdi w = Some c \<and> FdCtx_made c \<and> (\<not> m_isSocket c \<or> m_userNonblock c)) \<longrightarrow>
      do_io (a # as) fdi fn ev so w =
        Some (Inr (sr_ret (a_ret a), raw (io_call fn fdi) (a_ret a) w))) \<and>
   (FdMgr_get fdi w = None \<or> (\<exists>c. FdMgr_get fdi w = Some c \<and> \<not> m_isSocket c) \<longrightarrow>
      fcntl r fdi F_SETFL (int_arg x) w =
        Inr (sr_ret r, raw (fcntl_call fdi F_SETFL (int_arg x)) r w) \<and>
      fcntl r fdi F_GETFL no_arg w = Inr (sr_ret r, raw (fcntl_call fdi F_GETFL no_arg) r w) \<and>
      ioctl r fdi FIONBIO arg (Some v) w = Inr (sr_ret r, raw (ioctl_call fdi FIONBIO arg) r w)) \<and>
   (cmd \<in> set int_arg_cmds \<longrightarrow>
      fcntl r fdi cmd (int_arg x) w = Inr (sr_ret r, raw (fcntl_call fdi cmd (int_arg x)) r w)) \<and>
   (cmd \<in> set no_arg_cmds \<longrightarrow>
      fcntl r fdi cmd no_arg w = Inr (sr_ret r, raw (fcntl_call fdi cmd no_arg) r w)) \<and>
   (cmd \<in> set ptr_arg_cmds \<longrightarrow>
      fcntl r fdi cmd (ptr_arg p) w = Inr (sr_ret r, raw (fcntl_call fdi cmd (ptr_arg p)) r w)) \<and>
   (cmd \<noteq> F_SETFL \<and> cmd \<noteq> F_GETFL \<and>
    cmd \<notin> set int_arg_cmds \<and> cmd \<notin> set no_arg_cmds \<and> cmd \<notin> set ptr_arg_cmds \<longrightarrow>
      fcntl r fdi cmd va w = Inr (sr_ret r, raw (fcntl_call fdi cmd no_arg) r w)) \<and>
   (request \<noteq> FIONBIO \<longrightarrow>
      ioctl r fdi request arg pointee w = Inr (sr_ret r, raw (ioctl_call fdi request arg) r w))"
proof (intro conjI impI)
  assume off: "\<not> t_hook_enable w"
  then show "do_io (a # as) fdi fn ev so w =
        Some (Inr (sr_ret (a_ret a), raw (io_call fn fdi) (a_ret a) w))"
    by (rule do_io_disabled)
  from off show "hooked_io (a # as) fn fdi w =
        Some (Inr (sr_ret (a_ret a), raw (io_call fn fdi) (a_ret a) w))"
    by (simp add: hooked_io_def do_io_disabled)
  from off show "sleep a seconds w = Inr (sr_ret (a_ret a), raw (sleep_call seconds) (a_ret a) w)"
    by (simp add: sleep_def)
  from off show "usleep a usec w = Inr (sr_ret (a_ret a), raw (usleep_call usec) (a_ret a) w)"
    by (simp add: usleep_def)
  from off show "nanosleep a tv_sec tv_nsec w =
        Inr (sr_ret (a_ret a), raw (nanosleep_call tv_sec tv_nsec) (a_ret a) w)"
    by (simp add: nanosleep_def)
  from off show "connect a rg fdi w = Inr (sr_ret (a_ret a), raw (connect_call fdi) (a_ret a) w)"
    by (simp add: connect_def connect_with_timeout_def)
  from off show "setsockopt r fdi level optname tv_sec tv_usec w =
        (sr_ret r, raw (setsockopt_call fdi level optname tv_sec tv_usec) r w)"
    by (simp add: setsockopt_def)
next
  assume "FdMgr_get fdi w = None \<or>
    (\<exists>c. FdMgr_get fdi w = Some c \<and> FdCtx_made c \<and> (\<not> m_isSocket c \<or> m_userNonblock c))"
  then show "do_io (a # as) fdi fn ev so w =
        Some (Inr (sr_ret (a_ret a), raw (io_call fn fdi) (a_ret a) w))"
    by (rule do_io_passthrough)
next
  assume nc: "FdMgr_get fdi w = None \<or> (\<exists>c. FdMgr_get fdi w = Some c \<and> \<not> m_isSocket c)"
  then show "fcntl r fdi F_SETFL (int_arg x) w =
        Inr (sr_ret r, raw (fcntl_call fdi F_SETFL (int_arg x)) r w)"
    by (auto simp add: fcntl_def)
  from nc show "fcntl r fdi F_GETFL no_arg w =
        Inr (sr_ret r, raw (fcntl_call fdi F_GETFL no_arg) r w)"
    by (auto simp add: fcntl_def F_GETFL_def F_SETFL_def Let_def)
  from nc show "ioctl r fdi FIONBIO arg (Some v) w =
        Inr (sr_ret r, raw (ioctl_call fdi FIONBIO arg) r w)"
    by (auto simp add: ioctl_def)
next
  assume "cmd \<in> set int_arg_cmds"
  then show "fcntl r fdi cmd (int_arg x) w =
        Inr (sr_ret r, raw (fcntl_call fdi cmd (int_arg x)) r w)"
    by (rule fcntl_int_arg_cmd)
next
  assume "cmd \<in> set no_arg_cmds"
  then show "fcntl r fdi cmd no_arg w = Inr (sr_ret r, raw (fcntl_call fdi cmd no_arg) r w)"
    by (rule fcntl_no_arg_cmd)
next
  assume "cmd \<in> set ptr_arg_cmds"
  then show "fcntl r fdi cmd (ptr_arg p) w =
        Inr (sr_ret r, raw (fcntl_call fdi cmd (ptr_arg p)) r w)"
    by (rule fcntl_ptr_arg_cmd)
next
  assume "cmd \<noteq> F_SETFL \<and> cmd \<noteq> F_GETFL \<and>
    cmd \<notin> set int_arg_cmds \<and> cmd \<notin> set no_arg_cmds \<and> cmd \<notin> set ptr_arg_cmds"
  then show "fcntl r fdi cmd va w = Inr (sr_ret r, raw (fcntl_call fdi cmd no_arg) r w)"
    by (simp add: fcntl_other_cmd)
next
  assume "request \<noteq> FIONBIO"
  then show "ioctl r fdi request arg pointee w =
        Inr (sr_ret r, raw (ioctl_call fdi request arg) r w)"
    by (simp add: ioctl_def)
qed


lemmas world_eval_defs =
  empty_world_def socket_world_def sys_ok_def sys_fail_def FdCtx_ctor_def raw_def Let_def
  FdMgr_get_def put_FdCtx_def F_GETFL_def F_SETFL_def O_NONBLOCK_def plain_attempt_def

text \<open>
  Claim C2, as stated, fails: the hook flag is false and descriptor 1 is a socket with a
  context. \<open>fcntl F_GETFL\<close> returns 2 where the original call returned 2050 (the
  \<^verbatim>\<open>O_NONBLOCK\<close> bit is replaced by the user's flag); \<open>fcntl F_SETFL\<close> with argument 0 calls
  the original function with 2048, not with 0; \<open>ioctl FIONBIO\<close> changes the context; and
  \<open>fcntl\<close> with command 1033 (\<^verbatim>\<open>F_ADD_SEALS\<close>, which the \<^verbatim>\<open>switch\<close> does not list) and argument
  5 calls the original function without the argument.
\<close>

theorem fcntl_ignores_hook_flag:
  "\<not> t_hook_enable socket_world \<and>
   fst (projr (fcntl (sys_ok 2050) 1 F_GETFL no_arg socket_world)) = 2 \<and>
   sys_calls (snd (projr (fcntl (sys_ok 0) 1 F_SETFL (int_arg 0) socket_world))) =
     [fcntl_call 1 F_SETFL (int_arg 2048)] \<and>
   sys_calls (raw (fcntl_call 1 F_SETFL (int_arg 0)) (sys_ok 0) socket_world) =
     [fcntl_call 1 F_SETFL (int_arg 0)] \<and>
   m_datas (snd (projr (ioctl (sys_ok 0) 1 FIONBIO 0 (Some 1) socket_world))) \<noteq>
     m_datas socket_world \<and>
   sys_calls (snd (projr (fcntl (sys_ok 0) 1 1033 (int_arg 5) socket_world))) =
     [fcntl_call 1 1033 no_arg] \<and>
   sys_calls (raw (fcntl_call 1 1033 (int_arg 5)) (sys_ok 0) socket_world) =
     [fcntl_call 1 1033 (int_arg 5)]"
  by (simp add: world_eval_defs fcntl_def ioctl_def fcntl_cmd_defs)

text \<open>
  Claim C2, witness: with the flag false, \<open>do_io\<close>, \<open>sleep\<close> and \<open>connect\<close> on the socket
  return the original call's value and only record the call (and its \<^verbatim>\<open>errno\<close>); with the
  flag true \<open>do_io\<close> on descriptor 0, which has no context, does the same; \<open>fcntl\<close> passes
  through for a descriptor without context, for \<^verbatim>\<open>F_SETFD\<close> with its \<^verbatim>\<open>int\<close>, for \<^verbatim>\<open>F_GETFD\<close>
  and for \<^verbatim>\<open>F_GETLK\<close> with its pointer, and calls the original function without argument
  for command 1033; \<open>ioctl\<close> passes through for request 0.
\<close>

theorem hook_disabled_passthrough_witness:
  "\<not> t_hook_enable socket_world \<and>
   FdMgr_get 0 socket_world = None \<and>
   F_SETFD \<in> set int_arg_cmds \<and> F_GETFD \<in> set no_arg_cmds \<and> F_GETLK \<in> set ptr_arg_cmds \<and>
   (0 :: 64 word) \<noteq> FIONBIO \<and>
   do_io [plain_attempt (sys_ok 5)] 1 read_f READ SO_RCVTIMEO socket_world =
     Some (Inr (5, socket_world\<lparr>sys_calls := [io_call read_f 1]\<rparr>)) \<and>
   sleep (plain_attempt (sys_ok 0)) 3 socket_world =
     Inr (0, socket_world\<lparr>sys_calls := [sleep_call 3]\<rparr>) \<and>
   connect (plain_attempt (sys_fail EINPROGRESS)) (sys_ok 0) 1 socket_world =
     Inr (- 1, socket_world\<lparr>errno := EINPROGRESS, sys_calls := [connect_call 1]\<rparr>) \<and>
   do_io [plain_attempt (sys_ok 5)] 0 read_f READ SO_RCVTIMEO (socket_world\<lparr>t_hook_enable := True\<rparr>) =
     Some (Inr (5, socket_world\<lparr>t_hook_enable := True, sys_calls := [io_call read_f 0]\<rparr>)) \<and>
   fcntl (sys_ok 2050) 0 F_GETFL no_arg socket_world =
     Inr (2050, socket_world\<lparr>sys_calls := [fcntl_call 0 F_GETFL no_arg]\<rparr>) \<and>
   fcntl (sys_ok 0) 1 F_SETFD (int_arg 1) socket_world =
     Inr (0, socket_world\<lparr>sys_calls := [fcntl_call 1 F_SETFD (int_arg 1)]\<rparr>) \<and>
   fcntl (sys_ok 1) 1 F_GETFD no_arg socket_world =
     Inr (1, socket_world\<lparr>sys_calls := [fcntl_call 1 F_GETFD no_arg]\<rparr>) \<and>
   fcntl (sys_ok 0) 1 F_GETLK (ptr_arg 4096) socket_world =
     Inr (0, socket_world\<lparr>sys_calls := [fcntl_call 1 F_GETLK (ptr_arg 4096)]\<rparr>) \<and>
   fcntl (sys_ok 0) 1 1033 (int_arg 5) socket_world =
     Inr (0, socket_world\<lparr>sys_calls := [fcntl_call 1 1033 no_arg]\<rparr>) \<and>
   ioctl (sys_ok 0) 1 0 4096 (Some 7) socket_world =
     Inr (0, socket_world\<lparr>sys_calls := [ioctl_call 1 0 4096]\<rparr>)"
proof -
  have off: "\<not> t_hook_enable socket_world" by (simp add: world_eval_defs)
  have none: "FdMgr_get 0 socket_world = None" by (simp add: world_eval_defs)
  have none': "FdMgr_get 0 (socket_world\<lparr>t_hook_enable := True\<rparr>) = None"
    by (simp add: world_eval_defs)
  have ci: "F_SETFD \<in> set int_arg_cmds" by (simp add: fcntl_cmd_defs)
  have cn: "F_GETFD \<in> set no_arg_cmds" by (simp add: fcntl_cmd_defs)
  have cp: "F_GETLK \<in> set ptr_arg_cmds" by (simp add: fcntl_cmd_defs)
  have co: "(1033 :: int) \<noteq> F_SETFL \<and> (1033 :: int) \<noteq> F_GETFL \<and>
    (1033 :: int) \<notin> set int_arg_cmds \<and> (1033 :: int) \<notin> set no_arg_cmds \<and>
    (1033 :: int) \<notin> set ptr_arg_cmds"
    by (simp add: fcntl_cmd_defs)
  have req: "(0 :: 64 word) \<noteq> FIONBIO" by (simp add: FIONBIO_def)
  note t1 = hook_disabled_passthrough
     [where w = socket_world and a = "plain_attempt (sys_ok 5)" and as = "[]" and fdi = 1
        and fn = read_f and ev = READ and so = SO_RCVTIMEO]
  note t2 = hook_disabled_passthrough
     [where w = socket_world and a = "plain_attempt (sys_ok 0)" and fdi = 1 and seconds = 3
        and r = "sys_ok 0" and cmd = F_SETFD and x = 1 and request = 0 and arg = 4096
        and pointee = "Some 7"]
  note t3 = hook_disabled_passthrough
     [where w = socket_world and a = "plain_attempt (sys_fail EINPROGRESS)" and fdi = 1
        and rg = "sys_ok 0"]
  note t4 = hook_disabled_passthrough
     [where w = "socket_world\<lparr>t_hook_enable := True\<rparr>" and a = "plain_attempt (sys_ok 5)"
        and as = "[]" and fdi = 0 and fn = read_f and ev = READ and so = SO_RCVTIMEO]
  note t5 = hook_disabled_passthrough
     [where w = socket_world and fdi = 0 and r = "sys_ok 2050"]
  note t6 = hook_disabled_passthrough
     [where w = socket_world and fdi = 1 and r = "sys_ok 1" and cmd = F_GETFD]
  note t7 = hook_disabled_passthrough
     [where w = socket_world and fdi = 1 and r = "sys_ok 0" and cmd = F_GETLK and p = 4096]
  note t8 = hook_disabled_passthrough
     [where w = socket_world and fdi = 1 and r = "sys_ok 0" and cmd = 1033 and va = "int_arg 5"]
  from t1 off have a: "do_io [plain_attempt (sys_ok 5)] 1 read_f READ SO_RCVTIMEO socket_world =
     Some (Inr (5, socket_world\<lparr>sys_calls := [io_call read_f 1]\<rparr>))"
    by (simp add: world_eval_defs)
  from t2 off ci req have b: "sleep (plain_attempt (sys_ok 0)) 3 socket_world =
     Inr (0, socket_world\<lparr>sys_calls := [sleep_call 3]\<rparr>)"
    "fcntl (sys_ok 0) 1 F_SETFD (int_arg 1) socket_world =
     Inr (0, socket_world\<lparr>sys_calls := [fcntl_call 1 F_SETFD (int_arg 1)]\<rparr>)"
    "ioctl (sys_ok 0) 1 0 4096 (Some 7) socket_world =
     Inr (0, socket_world\<lparr>sys_calls := [ioctl_call 1 0 4096]\<rparr>)"
    by (simp_all add: world_eval_defs)
  from t3 off have c: "connect (plain_attempt (sys_fail EINPROGRESS)) (sys_ok 0) 1 socket_world =
     Inr (- 1, socket_world\<lparr>errno := EINPROGRESS, sys_calls := [connect_call 1]\<rparr>)"
    by (simp add: world_eval_defs)
  from t4 none' have d: "do_io [plain_attempt (sys_ok 5)] 0 read_f READ SO_RCVTIMEO
       (socket_world\<lparr>t_hook_enable := True\<rparr>) =
     Some (Inr (5, socket_world\<lparr>t_hook_enable := True, sys_calls := [io_call read_f 0]\<rparr>))"
    by (simp add: world_eval_defs)
  from t5 none have e: "fcntl (sys_ok 2050) 0 F_GETFL no_arg socket_world =
     Inr (2050, socket_world\<lparr>sys_calls := [fcntl_call 0 F_GETFL no_arg]\<rparr>)"
    by (simp add: world_eval_defs)
  from t6 cn have f: "fcntl (sys_ok 1) 1 F_GETFD no_arg socket_world =
     Inr (1, socket_world\<lparr>sys_calls := [fcntl_call 1 F_GETFD no_arg]\<rparr>)"
    by (simp add: world_eval_defs)
  from t7 cp have g: "fcntl (sys_ok 0) 1 F_GETLK (ptr_arg 4096) socket_world =
     Inr (0, socket_world\<lparr>sys_calls := [fcntl_call 1 F_GETLK (ptr_arg 4096)]\<rparr>)"
    by (simp add: world_eval_defs)
  from t8 co have h: "fcntl (sys_ok 0) 1 1033 (int_arg 5) socket_world =
     Inr (0, socket_world\<lparr>sys_calls := [fcntl_call 1 1033 no_arg]\<rparr>)"
    by (simp add: world_eval_defs)
  from off none ci cn cp req a b c d e f g h show ?thesis by simp
qed


lemma addEvent_success_slot:
  assumes "addEvent env rt fdi ev None iom = Inr (0, iom')"
  shows "0 \<le> fdi" and "nat fdi < length (m_fdContexts iom')" and "ev \<noteq> NONE"
    and "events (m_fdContexts iom' ! nat fdi) AND Event_val ev \<noteq> 0"
    and "getEventContext ev (m_fdContexts iom' ! nat fdi) =
           Inr \<lparr>scheduler = t_scheduler env, fiber = Some (t_fiber env), cb = None\<rparr>"
    and "m_tasks iom' = m_tasks iom" and "tmgr iom' = tmgr iom"
proof -
  define iom0 where "iom0 = (if int (length (m_fdContexts iom)) > fdi then iom
                  else contextResize (nat (3 * fdi div 2)) iom)"
  from assms show rng: "0 \<le> fdi"
    by (auto simp add: addEvent_def iom0_def Let_def split: if_splits)
  from assms have rng0: "nat fdi < length (m_fdContexts iom0)"
    by (auto simp add: addEvent_def iom0_def Let_def split: if_splits)
  from assms show "ev \<noteq> NONE"
    by (auto simp add: addEvent_def Let_def split: if_splits)
  have keep: "m_tasks iom0 = m_tasks iom" "tmgr iom0 = tmgr iom"
    by (simp_all add: iom0_def contextResize_def)
  from assms rng rng0 keep
  show "nat fdi < length (m_fdContexts iom')"
    and "events (m_fdContexts iom' ! nat fdi) AND Event_val ev \<noteq> 0"
    and "getEventContext ev (m_fdContexts iom' ! nat fdi) =
           Inr \<lparr>scheduler = t_scheduler env, fiber = Some (t_fiber env), cb = None\<rparr>"
    and "m_tasks iom' = m_tasks iom" and "tmgr iom' = tmgr iom"
    by (cases ev;
        auto simp add: addEvent_def Let_def iom0_def [symmetric] put_fd_ctx_def
          epoll_ctl_def bits32
        split: if_splits)+
qed

lemma cancelEvent_fires:
  assumes "0 \<le> fdi" "nat fdi < length (m_fdContexts iom)"
    and "events (m_fdContexts iom ! nat fdi) AND Event_val ev \<noteq> 0"
    and "getEventContext ev (m_fdContexts iom ! nat fdi) =
           Inr \<lparr>scheduler = Some s, fiber = Some f, cb = None\<rparr>"
  shows "\<exists>iom'. cancelEvent rt fdi ev iom = Inr (True, iom') \<and>
           tmgr iom' = tmgr iom \<and>
           (rt = 0 \<longrightarrow>
              \<not> armed fdi ev iom' \<and>
              m_pendingEventCount iom' = m_pendingEventCount iom - 1 \<and>
              m_tasks iom' =
                m_tasks iom @ [(s, \<lparr>task_fiber = Some f, task_cb = None, thread = - 1\<rparr>)])"
proof -
  from assms(1,2) have lt: "fdi < int (length (m_fdContexts iom))" "\<not> fdi < 0" by auto
  from assms(4) have "ev \<noteq> NONE" by (cases ev) auto
  with assms lt show ?thesis
    by (cases ev)
       (auto simp add: cancelEvent_def triggerEvent_def Let_def epoll_ctl_def put_fd_ctx_def
          scheduleLock_def armed_def bits32)
qed


lemma cancel_clears_cb: "m_cb (timer_objs (snd (cancel t tm)) t) = None"
  by (simp add: cancel_def upd_timer_def Let_def split: option.split)

lemma cancel_timer_clears_cb:
  "m_cb (timer_objs (tmgr (io_manager (cancel_timer (Some t) w))) t) = None"
  by (simp add: cancel_clears_cb)

lemma addConditionTimer_installs:
  assumes "addConditionTimer now ms f weak_cond recurring tm = (t, tm_timer)"
  shows "m_cb (timer_objs tm_timer t) = Some (OnTimerFn weak_cond f)"
  using assms
  by (auto simp add: addConditionTimer_def addTimer_def addTimer_handle_def Timer_ctor_def Let_def
      split: prod.splits)

lemma do_io_enters_retry:
  assumes "t_hook_enable w" "FdMgr_get fdi w = Some c" "\<not> m_isClosed c" "m_isSocket c"
    "\<not> m_userNonblock c"
  shows "do_io as fdi fn ev so w =
         do_io_retry as fdi fn ev (getTimeout so c) (next_timer_info w) (snd (new_timer_info w))"
  using assms by (simp add: do_io_def Let_def new_timer_info_def)

lemma do_io_retry_parks:
  assumes again: "sr_ret (a_ret a) = - 1" "sr_errno (a_ret a) = EAGAIN"
    and finite: "timeout \<noteq> - 1"
    and iomgr: "t_scheduler (thr w) = Some 0"
    and timer: "addConditionTimer (a_now a) timeout (IoTimeoutFn ti fdi ev) ti False
                  (tmgr (io_manager w)) = (t, tm_timer)"
    and added: "addEvent (thr w) (a_epoll a) fdi ev None ((io_manager w)\<lparr>tmgr := tm_timer\<rparr>) =
                  Inr (0, iom_armed)"
  shows "do_io_retry (a # as) fdi fn ev timeout ti w =
          (case a_susp a ((raw (io_call fn fdi) (a_ret a) w)\<lparr>io_manager := iom_armed\<rparr>) of
             Inl e \<Rightarrow> Some (Inl e)
           | Inr w2 \<Rightarrow>
               (case timer_infos (cancel_timer (Some t) w2) ti of
                  None \<Rightarrow> Some (Inl NullPointer)
                | Some cancelled \<Rightarrow>
                    if cancelled = ETIMEDOUT then
                      Some (Inr (- 1, release_timer_info ti
                                        ((cancel_timer (Some t) w2)\<lparr>errno := cancelled\<rparr>)))
                    else do_io_retry as fdi fn ev timeout ti (cancel_timer (Some t) w2)))"
  using assms
  by (simp add: raw_def IOManager_GetThis_def EINTR_def EAGAIN_def Let_def
      split: sum.split option.split)


text \<open>
  Claim C9, amended: one round of \<open>do_io\<close> in which the original call fails with
  \<^verbatim>\<open>EAGAIN\<close>, the timeout is finite, the conditional timer \<open>t\<close> is added to a well-formed
  timer set and \<open>addEvent\<close> succeeds, so that the fiber parks in the state \<open>parked\<close>. The
  timer holds the callable bound to the operation's \<^verbatim>\<open>timer_info\<close>. When that callable runs
  and the \<^verbatim>\<open>epoll_ctl\<close> call of its \<open>cancelEvent\<close> succeeds, it stamps \<^verbatim>\<open>ETIMEDOUT\<close>, disarms the
  event, decrements the pending-event counter and schedules the parked fiber; if that is
  what happens while the fiber is parked, the operation returns \<open>- 1\<close> with
  \<^verbatim>\<open>errno = ETIMEDOUT\<close>, the timer's callable cleared and the timer out of the set. On every
  resumption \<^verbatim>\<open>Timer::cancel\<close> is applied to the timer first (the state \<open>resumed\<close>); with
  \<^verbatim>\<open>ETIMEDOUT\<close> recorded the operation then returns \<open>- 1\<close> with \<^verbatim>\<open>errno = ETIMEDOUT\<close>, with
  anything else recorded it goes on with the next call of the original function.
\<close>

theorem do_io_timeout:
  assumes again: "sr_ret (a_ret a) = - 1" "sr_errno (a_ret a) = EAGAIN"
    and finite: "timeout \<noteq> - 1"
    and iomgr: "t_scheduler (thr w) = Some 0"
    and ord: "timers_ordered (tmgr (io_manager w))"
    and fresh: "next_handle (tmgr (io_manager w)) \<notin> set (m_timers (tmgr (io_manager w)))"
    and timer: "addConditionTimer (a_now a) timeout (IoTimeoutFn ti fdi ev) ti False
                  (tmgr (io_manager w)) = (t, tm_timer)"
    and added: "addEvent (thr w) (a_epoll a) fdi ev None ((io_manager w)\<lparr>tmgr := tm_timer\<rparr>) =
                  Inr (0, iom_armed)"
    and live: "timer_infos w ti = Some 0"
    and parked: "parked = (raw (io_call fn fdi) (a_ret a) w)\<lparr>io_manager := iom_armed\<rparr>"
    and resumed: "resumed =
                    (\<lambda>u. u\<lparr>io_manager :=
                              (io_manager u)\<lparr>tmgr := snd (cancel t (tmgr (io_manager u)))\<rparr>\<rparr>)"
  shows "m_cb (timer_objs (tmgr iom_armed) t) = Some (OnTimerFn ti (IoTimeoutFn ti fdi ev)) \<and>
    (\<exists>v. run_callable (OnTimerFn ti (IoTimeoutFn ti fdi ev)) 0 parked = Inr v \<and>
          timer_infos v ti = Some ETIMEDOUT \<and>
          \<not> armed fdi ev (io_manager v) \<and>
          m_pendingEventCount (io_manager v) = m_pendingEventCount iom_armed - 1 \<and>
          m_tasks (io_manager v) =
            m_tasks (io_manager w) @
            [(0, \<lparr>task_fiber = Some (t_fiber (thr w)), task_cb = None, thread = - 1\<rparr>)] \<and>
          (a_susp a = run_callable (OnTimerFn ti (IoTimeoutFn ti fdi ev)) 0 \<longrightarrow>
             do_io_retry (a # as) fdi fn ev timeout ti w =
               Some (Inr (- 1, release_timer_info ti ((resumed v)\<lparr>errno := ETIMEDOUT\<rparr>))) \<and>
             m_cb (timer_objs (tmgr (io_manager (resumed v))) t) = None \<and>
             t \<notin> set (m_timers (tmgr (io_manager (resumed v)))))) \<and>
    (\<forall>w2. a_susp a parked = Inr w2 \<longrightarrow> timer_infos w2 ti = Some ETIMEDOUT \<longrightarrow>
       do_io_retry (a # as) fdi fn ev timeout ti w =
         Some (Inr (- 1, release_timer_info ti ((resumed w2)\<lparr>errno := ETIMEDOUT\<rparr>)))) \<and>
    (\<forall>w2 x. a_susp a parked = Inr w2 \<longrightarrow> timer_infos w2 ti = Some x \<longrightarrow> x \<noteq> ETIMEDOUT \<longrightarrow>
       do_io_retry (a # as) fdi fn ev timeout ti w =
         do_io_retry as fdi fn ev timeout ti (resumed w2) \<and>
       m_cb (timer_objs (tmgr (io_manager (resumed w2))) t) = None)"
proof -
  note slot = addEvent_success_slot [OF added]
  note step = do_io_retry_parks [OF again finite iomgr timer added, of as fn, folded parked]
  have cr: "\<And>u. cancel_timer (Some t) u = resumed u"
    by (simp add: resumed)
  have ti_keep: "\<And>u. timer_infos (resumed u) ti = timer_infos u ti"
    by (simp add: resumed)
  have cb_none: "\<And>u. m_cb (timer_objs (tmgr (io_manager (resumed u))) t) = None"
    by (simp add: resumed cancel_clears_cb)
  have tmt: "tm_timer = snd (addTimer (a_now a) timeout
                 (Some (OnTimerFn ti (IoTimeoutFn ti fdi ev))) False (tmgr (io_manager w)))"
    using timer by (simp add: addConditionTimer_def)
  have ord_t: "timers_ordered tm_timer"
    unfolding tmt using ord fresh by (rule timers_ordered_addTimer)
  have A: "m_cb (timer_objs (tmgr iom_armed) t) = Some (OnTimerFn ti (IoTimeoutFn ti fdi ev))"
    using addConditionTimer_installs [OF timer] slot(7) by simp
  have plive: "timer_infos parked ti = Some 0"
    using live by (simp add: parked raw_def)
  have pslot: "getEventContext ev (m_fdContexts (io_manager parked) ! nat fdi) =
           Inr \<lparr>scheduler = Some 0, fiber = Some (t_fiber (thr w)), cb = None\<rparr>"
    using slot(5) iomgr by (simp add: parked)
  have E: "\<forall>w2. a_susp a parked = Inr w2 \<longrightarrow> timer_infos w2 ti = Some ETIMEDOUT \<longrightarrow>
       do_io_retry (a # as) fdi fn ev timeout ti w =
         Some (Inr (- 1, release_timer_info ti ((resumed w2)\<lparr>errno := ETIMEDOUT\<rparr>)))"
    using step by (simp add: cr ti_keep del: cancel_timer.simps)
  have D: "\<forall>w2 x. a_susp a parked = Inr w2 \<longrightarrow> timer_infos w2 ti = Some x \<longrightarrow> x \<noteq> ETIMEDOUT \<longrightarrow>
       do_io_retry (a # as) fdi fn ev timeout ti w =
         do_io_retry as fdi fn ev timeout ti (resumed w2) \<and>
       m_cb (timer_objs (tmgr (io_manager (resumed w2))) t) = None"
    using step by (simp add: cr ti_keep cb_none del: cancel_timer.simps)
  have B: "\<exists>v. run_callable (OnTimerFn ti (IoTimeoutFn ti fdi ev)) 0 parked = Inr v \<and>
          timer_infos v ti = Some ETIMEDOUT \<and>
          \<not> armed fdi ev (io_manager v) \<and>
          m_pendingEventCount (io_manager v) = m_pendingEventCount iom_armed - 1 \<and>
          m_tasks (io_manager v) =
            m_tasks (io_manager w) @
            [(0, \<lparr>task_fiber = Some (t_fiber (thr w)), task_cb = None, thread = - 1\<rparr>)] \<and>
          (a_susp a = run_callable (OnTimerFn ti (IoTimeoutFn ti fdi ev)) 0 \<longrightarrow>
             do_io_retry (a # as) fdi fn ev timeout ti w =
               Some (Inr (- 1, release_timer_info ti ((resumed v)\<lparr>errno := ETIMEDOUT\<rparr>))) \<and>
             m_cb (timer_objs (tmgr (io_manager (resumed v))) t) = None \<and>
             t \<notin> set (m_timers (tmgr (io_manager (resumed v)))))"
  proof -
    from cancelEvent_fires [of fdi "io_manager parked" ev 0 "t_fiber (thr w)" 0]
      slot(1,2,4) pslot
    obtain iom' where c: "cancelEvent 0 fdi ev (io_manager parked) = Inr (True, iom')"
      and k: "tmgr iom' = tmgr (io_manager parked)"
      and f: "\<not> armed fdi ev iom'"
        "m_pendingEventCount iom' = m_pendingEventCount (io_manager parked) - 1"
        "m_tasks iom' = m_tasks (io_manager parked) @
                [(0, \<lparr>task_fiber = Some (t_fiber (thr w)), task_cb = None, thread = - 1\<rparr>)]"
      by (auto simp add: parked)
    define v where "v = parked\<lparr>timer_infos := (timer_infos parked)(ti := Some ETIMEDOUT),
                             io_manager := iom'\<rparr>"
    from c plive have run: "run_callable (OnTimerFn ti (IoTimeoutFn ti fdi ev)) 0 parked = Inr v"
      by (simp add: Let_def v_def)
    have stamp: "timer_infos v ti = Some ETIMEDOUT" by (simp add: v_def)
    have tmv: "tmgr (io_manager v) = tm_timer"
      using k slot(7) by (simp add: v_def parked)
    have st: "\<not> armed fdi ev (io_manager v)"
      "m_pendingEventCount (io_manager v) = m_pendingEventCount iom_armed - 1"
      "m_tasks (io_manager v) =
            m_tasks (io_manager w) @
            [(0, \<lparr>task_fiber = Some (t_fiber (thr w)), task_cb = None, thread = - 1\<rparr>)]"
      using f slot(6) by (simp_all add: v_def parked raw_def)
    have cbt: "m_cb (timer_objs tm_timer t) \<noteq> None"
      using A slot(7) by simp
    have gone: "t \<notin> set (m_timers (tmgr (io_manager (resumed v))))"
      using cancel_removes [OF ord_t cbt] by (simp add: resumed tmv)
    have ret: "a_susp a = run_callable (OnTimerFn ti (IoTimeoutFn ti fdi ev)) 0 \<longrightarrow>
             do_io_retry (a # as) fdi fn ev timeout ti w =
               Some (Inr (- 1, release_timer_info ti ((resumed v)\<lparr>errno := ETIMEDOUT\<rparr>)))"
      using E run stamp by simp
    from run stamp st ret cb_none [of v] gone show ?thesis by blast
  qed
  from A B D E show ?thesis by blast
qed

text \<open>
  Claim C9, as stated, fails: \<open>recv\<close> on the socket with the 50 ms timeout parks, the
  timer's callable runs and the \<^verbatim>\<open>epoll_ctl\<close> call of its \<open>cancelEvent\<close> fails. The callable
  has stamped \<^verbatim>\<open>ETIMEDOUT\<close>, so the operation, once resumed, returns \<open>- 1\<close> with
  \<^verbatim>\<open>errno = ETIMEDOUT\<close>; but the timer has not cancelled the armed event: \<open>READ\<close> is still
  armed on the descriptor, the pending-event counter still counts it, and no task was
  scheduled to resume the fiber.
\<close>

theorem timer_fires_event_stays_armed:
  "(case do_io [timer_fires_epoll_fails] 1 recv_f READ SO_RCVTIMEO timeout_world of
      Some (Inr (n, w')) \<Rightarrow>
        n = - 1 \<and> errno w' = ETIMEDOUT \<and>
        armed 1 READ (io_manager w') \<and>
        m_pendingEventCount (io_manager w') = 1 \<and>
        m_tasks (io_manager w') = []
    | _ \<Rightarrow> False)"
  by (simp add: do_io_def timeout_world_def setsockopt_def world_eval_defs SOL_SOCKET_def
      SO_RCVTIMEO_def SO_SNDTIMEO_def setTimeout_def getTimeout_def div_trunc_def
      new_timer_info_def release_timer_info_def timer_fires_epoll_fails_def
      IOManager_GetThis_def EINTR_def EAGAIN_def ETIMEDOUT_def
      addConditionTimer_def timer_defs io_eval_defs cancelEvent_def)


lemma tw_ctx:
  "FdMgr_get 1 timeout_world =
     Some \<lparr> m_isInit = True, m_isSocket = True, m_sysNonblock = True, m_userNonblock = False,
            m_isClosed = False, m_fd = 1, m_recvTimeout = 50, m_sendTimeout = - 1 \<rparr>"
  by (simp add: timeout_world_def setsockopt_def world_eval_defs SOL_SOCKET_def SO_RCVTIMEO_def
      SO_SNDTIMEO_def setTimeout_def div_trunc_def)


lemma do_io_retry_done:
  "sr_ret (a_ret a) \<noteq> - 1 \<Longrightarrow>
   do_io_retry (a # as) fdi fn ev timeout ti w =
     Some (Inr (sr_ret (a_ret a), release_timer_info ti (raw (io_call fn fdi) (a_ret a) w)))"
  by (simp add: Let_def)

text \<open>
  Claim C9, witness: \<open>recv\<close> on the socket with the 50 ms timeout. When the timer's
  callable runs while the fiber is parked (its \<^verbatim>\<open>epoll_ctl\<close> succeeding), \<open>do_io\<close> returns
  \<open>- 1\<close> with \<^verbatim>\<open>ETIMEDOUT\<close>, the event is disarmed and the timer set is empty; when the event
  is fired instead, the original call is made again and its value 5 is returned.
\<close>

theorem do_io_timeout_witness:
  "(\<exists>w'. do_io [timer_fires] 1 recv_f READ SO_RCVTIMEO timeout_world = Some (Inr (- 1, w')) \<and>
         errno w' = ETIMEDOUT \<and> \<not> armed 1 READ (io_manager w') \<and>
         0 \<notin> set (m_timers (tmgr (io_manager w')))) \<and>
   (\<exists>w'. do_io [fd_ready, plain_attempt (sys_ok 5)] 1 recv_f READ SO_RCVTIMEO timeout_world =
           Some (Inr (5, w')))"
proof -
  let ?w = "snd (new_timer_info timeout_world)"
  let ?tm_timer = "snd (addConditionTimer 0 50 (IoTimeoutFn 0 1 READ) 0 False (tmgr (io_manager ?w)))"
  let ?iom_armed = "snd (projr (addEvent (thr ?w) 0 1 READ None ((io_manager ?w)\<lparr>tmgr := ?tm_timer\<rparr>)))"
  let ?resumed = "\<lambda>u. u\<lparr>io_manager :=
                              (io_manager u)\<lparr>tmgr := snd (cancel 0 (tmgr (io_manager u)))\<rparr>\<rparr>"
  have w_fields: "thr ?w = env0" "io_manager ?w = small_iom" "timer_infos ?w 0 = Some 0"
    "next_timer_info timeout_world = 0"
    by (simp_all add: new_timer_info_def timeout_world_def setsockopt_def world_eval_defs
        SOL_SOCKET_def SO_RCVTIMEO_def)
  have enter: "\<And>as. do_io as 1 recv_f READ SO_RCVTIMEO timeout_world =
      do_io_retry as 1 recv_f READ 50 0 ?w"
    using do_io_enters_retry [OF _ tw_ctx, of _ recv_f READ SO_RCVTIMEO] w_fields(4)
    by (simp add: timeout_world_def setsockopt_def world_eval_defs getTimeout_def)
  have again: "sr_ret (a_ret timer_fires) = - 1" "sr_errno (a_ret timer_fires) = EAGAIN"
    "sr_ret (a_ret fd_ready) = - 1" "sr_errno (a_ret fd_ready) = EAGAIN"
    by (simp_all add: timer_fires_def fd_ready_def sys_fail_def)
  have finite: "(50 :: 64 word) \<noteq> - 1" by simp
  have iomgr: "t_scheduler (thr ?w) = Some 0" by (simp add: w_fields env0_def)
  have ord: "timers_ordered (tmgr (io_manager ?w))"
    by (simp add: w_fields small_iom_def timers_ordered_ctor)
  have fresh: "next_handle (tmgr (io_manager ?w)) \<notin> set (m_timers (tmgr (io_manager ?w)))"
    by (simp add: w_fields small_iom_def TimerManager_ctor_def)
  have timer: "addConditionTimer 0 50 (IoTimeoutFn 0 1 READ) 0 False (tmgr (io_manager ?w)) =
      (0, ?tm_timer)"
    by (simp add: w_fields small_iom_def addConditionTimer_def timer_defs)
  have added: "addEvent (thr ?w) 0 1 READ None ((io_manager ?w)\<lparr>tmgr := ?tm_timer\<rparr>) = Inr (0, ?iom_armed)"
    by (simp add: w_fields io_eval_defs)
  have live: "timer_infos ?w 0 = Some 0" by (rule w_fields)
  have now1: "a_now timer_fires = 0" "a_epoll timer_fires = 0"
    "a_susp timer_fires = run_callable (OnTimerFn 0 (IoTimeoutFn 0 1 READ)) 0"
    "a_now fd_ready = 0" "a_epoll fd_ready = 0"
    by (simp_all add: timer_fires_def fd_ready_def)
  from do_io_timeout [where a = timer_fires and w = ?w and timeout = 50 and ti = 0 and fdi = 1
      and ev = READ and t = 0 and tm_timer = ?tm_timer and iom_armed = ?iom_armed and as = "[]"
      and fn = recv_f and resumed = ?resumed,
      OF again(1,2) finite iomgr ord fresh _ _ live refl refl]
    timer added now1
  obtain v where v: "\<not> armed 1 READ (io_manager v)"
      "do_io_retry [timer_fires] 1 recv_f READ 50 0 ?w =
         Some (Inr (- 1, release_timer_info 0 ((?resumed v)\<lparr>errno := ETIMEDOUT\<rparr>)))"
      "0 \<notin> set (m_timers (tmgr (io_manager (?resumed v))))"
    by auto
  let ?w' = "release_timer_info 0 ((?resumed v)\<lparr>errno := ETIMEDOUT\<rparr>)"
  have "errno ?w' = ETIMEDOUT" "\<not> armed 1 READ (io_manager ?w')"
    "0 \<notin> set (m_timers (tmgr (io_manager ?w')))"
    using v(1,3) by (simp_all add: release_timer_info_def armed_def)
  with v(2) have first: "\<exists>w'. do_io [timer_fires] 1 recv_f READ SO_RCVTIMEO timeout_world =
      Some (Inr (- 1, w')) \<and> errno w' = ETIMEDOUT \<and> \<not> armed 1 READ (io_manager w') \<and>
      0 \<notin> set (m_timers (tmgr (io_manager w')))"
    unfolding enter by blast
  let ?parked = "(raw (io_call recv_f 1) (a_ret fd_ready) ?w)\<lparr>io_manager := ?iom_armed\<rparr>"
  have "\<exists>w2. a_susp fd_ready ?parked = Inr w2 \<and> timer_infos w2 0 = Some 0"
    by (simp add: fd_ready_def w_fields io_eval_defs cancelEvent_def triggerEvent_def
        scheduleLock_def raw_def sys_fail_def)
  then obtain w2 where w2: "a_susp fd_ready ?parked = Inr w2" "timer_infos w2 0 = Some 0"
    by blast
  from do_io_timeout [where a = fd_ready and w = ?w and timeout = 50 and ti = 0 and fdi = 1
      and ev = READ and t = 0 and tm_timer = ?tm_timer and iom_armed = ?iom_armed
      and as = "[plain_attempt (sys_ok 5)]" and fn = recv_f and resumed = ?resumed,
      OF again(3,4) finite iomgr ord fresh _ _ live refl refl]
    timer added now1 w2
  have "do_io_retry [fd_ready, plain_attempt (sys_ok 5)] 1 recv_f READ 50 0 ?w =
        do_io_retry [plain_attempt (sys_ok 5)] 1 recv_f READ 50 0 (?resumed w2)"
    by (simp add: ETIMEDOUT_def)
  also have "\<dots> = Some (Inr (5, release_timer_info 0
       (raw (io_call recv_f 1) (a_ret (plain_attempt (sys_ok 5))) (?resumed w2))))"
    using do_io_retry_done [of "plain_attempt (sys_ok 5)" "[]" 1 recv_f READ 50 0]
    by (simp add: plain_attempt_def sys_ok_def del: do_io_retry.simps)
  finally have "\<exists>w'. do_io [fd_ready, plain_attempt (sys_ok 5)] 1 recv_f READ SO_RCVTIMEO
      timeout_world = Some (Inr (5, w'))"
    by (simp add: enter)
  with first show ?thesis by blast
qed

text \<open>
  \<open>accept\<close> with the hook flag false: the value of the original call is returned, but a
  context is created for the accepted descriptor, with the \<^verbatim>\<open>fstat\<close> and \<^verbatim>\<open>fcntl\<close> calls of
  its initialisation (the accepted socket is switched to non-blocking).
\<close>

lemma accept_with_hook_disabled_creates_context:
  "\<not> t_hook_enable empty_world \<and>
   fst (projr (the (accept [plain_attempt (sys_ok 1)] \<lparr>sr_ret = 0, sr_errno = 0, sr_out = 1\<rparr>
                      (sys_ok 2) (sys_ok 0) 0 empty_world))) = 1 \<and>
   sys_calls (snd (projr (the (accept [plain_attempt (sys_ok 1)]
                      \<lparr>sr_ret = 0, sr_errno = 0, sr_out = 1\<rparr> (sys_ok 2) (sys_ok 0) 0
                      empty_world)))) =
     [io_call accept_f 0, fstat_call 1, fcntl_call 1 F_GETFL (int_arg 0),
      fcntl_call 1 F_SETFL (int_arg 2050)] \<and>
   m_datas (snd (projr (the (accept [plain_attempt (sys_ok 1)]
                      \<lparr>sr_ret = 0, sr_errno = 0, sr_out = 1\<rparr> (sys_ok 2) (sys_ok 0) 0
                      empty_world)))) ! 1 \<noteq> None"
  by (simp add: accept_def do_io_def FdMgr_get_create_def world_eval_defs)

end
